theory Spec2Isabelle
  imports Main
begin

section \<open>Python values and exceptions\<close>

text \<open>
  The pipeline handles dynamically typed values: the body of a model response, the value
  recovered from it, and the entries of \<open>stage_results\<close>. They are the JSON-shaped
  Python values: \<open>None\<close>, booleans, integers, strings, lists, and dictionaries with
  string keys (an association list in insertion order, read with \<open>map_of\<close>).
  Floats are left out: in every branch modelled here a float behaves as an integer does.
\<close>

datatype pyval =
    PNone
  | PBool bool
  | PInt int
  | PStr string
  | PList "pyval list"
  | PDict "(string \<times> pyval) list"

text \<open>The classes of exception that the modelled code raises or catches.\<close>

datatype pyexn =
    JSONDecodeError | ValueError | TypeError | AttributeError | OverflowError | OSError
  | OtherException

text \<open>\<open>JSONDecodeError\<close> is a subclass of \<open>ValueError\<close>: what each handler catches.\<close>

fun caught_by_JSONDecodeError :: "pyexn \<Rightarrow> bool" where
  "caught_by_JSONDecodeError JSONDecodeError = True"
| "caught_by_JSONDecodeError _ = False"

fun caught_by_ValueError :: "pyexn \<Rightarrow> bool" where
  "caught_by_ValueError JSONDecodeError = True"
| "caught_by_ValueError ValueError = True"
| "caught_by_ValueError _ = False"

fun is_str :: "pyval \<Rightarrow> bool" where
  "is_str (PStr s) = True"
| "is_str _ = False"

fun is_dict :: "pyval \<Rightarrow> bool" where
  "is_dict (PDict d) = True"
| "is_dict _ = False"

fun is_list :: "pyval \<Rightarrow> bool" where
  "is_list (PList xs) = True"
| "is_list _ = False"

text \<open>Truth value of a Python value, as \<open>not x\<close> and \<open>if x\<close> read it.\<close>

fun truthy :: "pyval \<Rightarrow> bool" where
  "truthy PNone = False"
| "truthy (PBool b) = b"
| "truthy (PInt i) = (i \<noteq> 0)"
| "truthy (PStr s) = (s \<noteq> [])"
| "truthy (PList xs) = (xs \<noteq> [])"
| "truthy (PDict d) = (d \<noteq> [])"

text \<open>\<open>len(x)\<close>: defined on strings, lists and dictionaries, a \<open>TypeError\<close> elsewhere.\<close>

fun py_len :: "pyval \<Rightarrow> pyexn + nat" where
  "py_len (PStr s) = Inr (length s)"
| "py_len (PList xs) = Inr (length xs)"
| "py_len (PDict d) = Inr (length d)"
| "py_len _ = Inl TypeError"

text \<open>
  The library functions the code calls are parameters of the model: \<open>repr_of\<close> is
  \<open>str()\<close> on a value that is not a string, \<open>json_loads\<close> is \<open>json.loads\<close>
  on a string (a value, or the exception it raises), \<open>json_dumps\<close> is
  \<open>json.dumps(_, indent=2)\<close>.
\<close>

record builtins =
  repr_of :: "pyval \<Rightarrow> string"
  json_loads :: "string \<Rightarrow> pyexn + pyval"
  json_dumps :: "pyval \<Rightarrow> string"

definition py_str :: "builtins \<Rightarrow> pyval \<Rightarrow> string" where
  "py_str B v = (case v of PStr s \<Rightarrow> s | _ \<Rightarrow> repr_of B v)"

abbreviation newline :: char where
  "newline \<equiv> CHR 0x0A"

text \<open>\<open>sep.join(parts)\<close>: every part must be a string, else \<open>TypeError\<close>.\<close>

fun join_strs :: "string \<Rightarrow> string list \<Rightarrow> string" where
  "join_strs sep [] = []"
| "join_strs sep [s] = s"
| "join_strs sep (s # t # ss) = s @ sep @ join_strs sep (t # ss)"

fun strs_of :: "pyval list \<Rightarrow> string list option" where
  "strs_of [] = Some []"
| "strs_of (PStr s # vs) = (case strs_of vs of None \<Rightarrow> None | Some ss \<Rightarrow> Some (s # ss))"
| "strs_of (v # vs) = None"

definition py_join :: "string \<Rightarrow> pyval list \<Rightarrow> pyexn + string" where
  "py_join sep parts = (case strs_of parts of None \<Rightarrow> Inl TypeError | Some ss \<Rightarrow> Inr (join_strs sep ss))"

section \<open>Text Extractor: \<open>extract_text_content\<close>\<close>

text \<open>One pass of the loop body over an item of a list body: what it appends to \<open>text_parts\<close>.\<close>

fun item_parts :: "pyval \<Rightarrow> pyval list" where
  "item_parts (PDict d) =
     (case map_of d ''text'' of
        Some v \<Rightarrow> [v]
      | None \<Rightarrow> (case map_of d ''content'' of Some v \<Rightarrow> [v] | None \<Rightarrow> []))"
| "item_parts (PStr s) = [PStr s]"
| "item_parts v = []"

fun collect_parts :: "pyval list \<Rightarrow> pyval list \<Rightarrow> pyval list" where
  "collect_parts text_parts [] = text_parts"
| "collect_parts text_parts (item # items) = collect_parts (text_parts @ item_parts item) items"

fun extract_text_content :: "builtins \<Rightarrow> pyval \<Rightarrow> pyexn + pyval" where
  "extract_text_content B (PStr s) = Inr (PStr s)"
| "extract_text_content B (PList items) =
     (let text_parts = collect_parts [] items in
      if text_parts \<noteq> [] then
        (case py_join [newline] text_parts of Inl e \<Rightarrow> Inl e | Inr s \<Rightarrow> Inr (PStr s))
      else Inr (PStr (py_str B (PList items))))"
| "extract_text_content B (PDict d) =
     (case map_of d ''text'' of
        Some v \<Rightarrow> Inr v
      | None \<Rightarrow>
          (case map_of d ''content'' of
             Some v \<Rightarrow> Inr v
           | None \<Rightarrow> Inr (PStr (py_str B (PDict d)))))"
| "extract_text_content B v = Inr (PStr (py_str B v))"

section \<open>String operations of the recovery parser\<close>

text \<open>
  A string is a list of characters with code points below 256. \<open>isspace\<close> is
  Python's \<open>str.isspace\<close> on those code points, which \<open>strip()\<close> removes.
\<close>

definition isspace :: "char \<Rightarrow> bool" where
  "isspace c = (c \<in> set [CHR 0x09, CHR 0x0A, CHR 0x0B, CHR 0x0C, CHR 0x0D, CHR 0x1C,
                           CHR 0x1D, CHR 0x1E, CHR 0x1F, CHR 0x20, CHR 0x85, CHR 0xA0])"

definition strip :: "string \<Rightarrow> string" where
  "strip s = rev (dropWhile isspace (rev (dropWhile isspace s)))"

definition startswith :: "string \<Rightarrow> string \<Rightarrow> bool" where
  "startswith s p = (take (length p) s = p)"

definition endswith :: "string \<Rightarrow> string \<Rightarrow> bool" where
  "endswith s p = (length p \<le> length s \<and> drop (length s - length p) s = p)"

text \<open>\<open>s.find(c)\<close> and \<open>s.rfind(c)\<close> for a one-character \<open>c\<close>: an index, or \<open>-1\<close>.\<close>

fun find_from :: "nat \<Rightarrow> char \<Rightarrow> string \<Rightarrow> int" where
  "find_from i c [] = -1"
| "find_from i c (x # xs) = (if x = c then int i else find_from (Suc i) c xs)"

definition find_chr :: "string \<Rightarrow> char \<Rightarrow> int" where
  "find_chr s c = find_from 0 c s"

fun rfind_from :: "nat \<Rightarrow> int \<Rightarrow> char \<Rightarrow> string \<Rightarrow> int" where
  "rfind_from i found c [] = found"
| "rfind_from i found c (x # xs) = rfind_from (Suc i) (if x = c then int i else found) c xs"

definition rfind_chr :: "string \<Rightarrow> char \<Rightarrow> int" where
  "rfind_chr s c = rfind_from 0 (-1) c s"

text \<open>The slice \<open>s[i:j]\<close> for indices \<open>0 \<le> i\<close> and \<open>0 \<le> j\<close>.\<close>

definition slice :: "string \<Rightarrow> nat \<Rightarrow> nat \<Rightarrow> string" where
  "slice s i j = take (j - i) (drop i s)"

text \<open>\<open>s.split(c)\<close> for a one-character separator: never an empty list.\<close>

fun split_acc :: "char \<Rightarrow> string \<Rightarrow> string \<Rightarrow> string list" where
  "split_acc c cur [] = [cur]"
| "split_acc c cur (x # xs) = (if x = c then cur # split_acc c [] xs else split_acc c (cur @ [x]) xs)"

definition split_chr :: "string \<Rightarrow> char \<Rightarrow> string list" where
  "split_chr s c = split_acc c [] s"

section \<open>Fence stripping: \<open>clean_json_string\<close>\<close>

text \<open>
  The function on a string. (On a value that is not a string the source returns the
  value as it is; its only caller, \<open>try_parse_json\<close>, passes a string.)
\<close>

definition clean_json_string :: "string \<Rightarrow> string" where
  "clean_json_string json_str =
     (let s0 = strip json_str;
          s1 = (if startswith s0 ''```json'' then drop 7 s0
                else if startswith s0 ''```'' then drop 3 s0
                else s0);
          s2 = (if endswith s1 ''```'' then take (length s1 - 3) s1 else s1)
      in strip s2)"

section \<open>Structured Output Recovery Parser: \<open>try_parse_json\<close>\<close>

text \<open>
  What one strategy of the cascade does: it returns a value from \<open>try_parse_json\<close>,
  it lets an exception escape to the caller, or control falls through to the next strategy.
\<close>

datatype step = Returned pyval | Raised pyexn | Fell_through

text \<open>Strategy 1: direct parse; the handler catches \<open>json.JSONDecodeError\<close> only.\<close>

definition strategy_1 :: "builtins \<Rightarrow> string \<Rightarrow> step" where
  "strategy_1 B json_str =
     (case json_loads B json_str of
        Inr v \<Rightarrow> Returned v
      | Inl e \<Rightarrow> if caught_by_JSONDecodeError e then Fell_through else Raised e)"

text \<open>Strategy 2: parse the cleaned string, when cleaning changed it; same handler.\<close>

definition strategy_2 :: "builtins \<Rightarrow> string \<Rightarrow> string \<Rightarrow> step" where
  "strategy_2 B json_str cleaned =
     (if cleaned \<noteq> json_str then
        (case json_loads B cleaned of
           Inr v \<Rightarrow> Returned v
         | Inl e \<Rightarrow> if caught_by_JSONDecodeError e then Fell_through else Raised e)
      else Fell_through)"

text \<open>
  Strategies 3 and 4: parse from the first opening to the last closing delimiter;
  the handler catches \<open>json.JSONDecodeError\<close> and \<open>ValueError\<close>.
\<close>

definition extract_between :: "builtins \<Rightarrow> string \<Rightarrow> char \<Rightarrow> char \<Rightarrow> step" where
  "extract_between B cleaned opening closing =
     (let first_idx = find_chr cleaned opening; last_idx = rfind_chr cleaned closing in
      if first_idx \<noteq> -1 \<and> last_idx \<noteq> -1 \<and> last_idx > first_idx then
        (case json_loads B (slice cleaned (nat first_idx) (nat (last_idx + 1))) of
           Inr v \<Rightarrow> Returned v
         | Inl e \<Rightarrow> if caught_by_ValueError e then Fell_through else Raised e)
      else Fell_through)"

definition strategy_3 :: "builtins \<Rightarrow> string \<Rightarrow> step" where
  "strategy_3 B cleaned = extract_between B cleaned (CHR ''{'') (CHR ''}'')"

definition strategy_4 :: "builtins \<Rightarrow> string \<Rightarrow> step" where
  "strategy_4 B cleaned = extract_between B cleaned (CHR ''['') (CHR '']'')"

text \<open>Strategy 5: drop blank lines and lines starting with \<open>#\<close>, rejoin, parse.\<close>

definition strategy_5 :: "builtins \<Rightarrow> string \<Rightarrow> step" where
  "strategy_5 B cleaned =
     (let lines = split_chr cleaned newline;
          json_lines = filter (\<lambda>line. strip line \<noteq> [] \<and> \<not> startswith (strip line) ''#'') lines;
          json_str_reconstructed = join_strs [newline] json_lines
      in case json_loads B json_str_reconstructed of
           Inr v \<Rightarrow> Returned v
         | Inl e \<Rightarrow> if caught_by_ValueError e then Fell_through else Raised e)"

text \<open>
  Strategy 6: every substring, by increasing start and then increasing end; the first
  that parses to a dictionary or a list is returned. The inner handler catches
  \<open>json.JSONDecodeError\<close> and \<open>ValueError\<close> and continues; any other exception
  leaves both loops and is swallowed by the outer \<open>except Exception: pass\<close>.
\<close>

fun scan_ends :: "builtins \<Rightarrow> string \<Rightarrow> nat \<Rightarrow> nat list \<Rightarrow> step" where
  "scan_ends B cleaned start_idx [] = Fell_through"
| "scan_ends B cleaned start_idx (end_idx # rest) =
     (case json_loads B (slice cleaned start_idx end_idx) of
        Inr result \<Rightarrow>
          if is_dict result \<or> is_list result then Returned result
          else scan_ends B cleaned start_idx rest
      | Inl e \<Rightarrow>
          if caught_by_ValueError e then scan_ends B cleaned start_idx rest else Raised e)"

fun scan_starts :: "builtins \<Rightarrow> string \<Rightarrow> nat list \<Rightarrow> step" where
  "scan_starts B cleaned [] = Fell_through"
| "scan_starts B cleaned (start_idx # rest) =
     (case scan_ends B cleaned start_idx [start_idx + 1 ..< length cleaned + 1] of
        Fell_through \<Rightarrow> scan_starts B cleaned rest
      | r \<Rightarrow> r)"

definition strategy_6 :: "builtins \<Rightarrow> string \<Rightarrow> step" where
  "strategy_6 B cleaned =
     (case scan_starts B cleaned [0 ..< length cleaned] of
        Returned result \<Rightarrow> Returned result
      | Raised e \<Rightarrow> Fell_through
      | Fell_through \<Rightarrow> Fell_through)"

text \<open>Sequencing: the next strategy runs only when the one before fell through.\<close>

definition or_else :: "step \<Rightarrow> step \<Rightarrow> step" where
  "or_else a b = (case a of Fell_through \<Rightarrow> b | r \<Rightarrow> r)"

text \<open>
  The parser. A dictionary, and then any other value that is not a string, is returned
  as it is. The \<open>stage_name\<close> argument of the source is never read and is left out.
\<close>

definition try_parse_json :: "builtins \<Rightarrow> pyval \<Rightarrow> pyexn + pyval" where
  "try_parse_json B json_str =
     (if is_dict json_str then Inr json_str
      else case json_str of
        PStr s \<Rightarrow>
          (let original_str = s;
               cleaned = clean_json_string s
           in case or_else (strategy_1 B s)
                  (or_else (strategy_2 B s cleaned)
                  (or_else (strategy_3 B cleaned)
                  (or_else (strategy_4 B cleaned)
                  (or_else (strategy_5 B cleaned)
                           (strategy_6 B cleaned))))) of
                Returned v \<Rightarrow> Inr v
              | Raised e \<Rightarrow> Inl e
              | Fell_through \<Rightarrow> Inr (PStr original_str))
      | _ \<Rightarrow> Inr json_str)"

text \<open>
  A small decoder for concrete runs: it knows the documents \<open>{}\<close>, \<open>[]\<close> and
  \<open>null\<close>, with JSON whitespace around them, and rejects every other string with
  \<open>JSONDecodeError\<close>. On the strings handed to it in the concrete theorems below it
  answers as \<open>json.loads\<close> does.
\<close>

definition json_ws :: "char \<Rightarrow> bool" where
  "json_ws c = (c \<in> set [CHR 0x20, CHR 0x09, CHR 0x0A, CHR 0x0D])"

definition loads_small :: "string \<Rightarrow> pyexn + pyval" where
  "loads_small s =
     (let t = rev (dropWhile json_ws (rev (dropWhile json_ws s))) in
      if t = ''{}'' then Inr (PDict [])
      else if t = ''[]'' then Inr (PList [])
      else if t = ''null'' then Inr PNone
      else Inl JSONDecodeError)"

text \<open>
  A second small decoder, for integers written in decimal digits: a string of more than
  4300 digits is refused with a \<open>ValueError\<close> that is not a
  \<open>JSONDecodeError\<close>, as \<open>json.loads\<close> refuses it (the limit on converting a
  string of digits to an integer); every string that is not such an integer is rejected
  with \<open>JSONDecodeError\<close>.
\<close>

definition is_digit :: "char \<Rightarrow> bool" where
  "is_digit c = (c \<in> set ''0123456789'')"

definition loads_digits :: "string \<Rightarrow> pyexn + pyval" where
  "loads_digits s =
     (if s \<noteq> [] \<and> list_all is_digit s \<and> (length s = 1 \<or> hd s \<noteq> CHR ''0'')
      then if 4300 < length s then Inl ValueError
           else Inr (PInt (foldl (\<lambda>n c. 10 * n + (int (of_char c) - 48)) 0 s))
      else Inl JSONDecodeError)"

definition digits_builtins :: builtins where
  "digits_builtins = \<lparr> repr_of = (\<lambda>v. ''<value>''), json_loads = loads_digits, json_dumps = (\<lambda>v. ''<json>'') \<rparr>"

definition small_builtins :: builtins where
  "small_builtins = \<lparr> repr_of = (\<lambda>v. ''<value>''), json_loads = loads_small, json_dumps = (\<lambda>v. ''<json>'') \<rparr>"

section \<open>Resilient Invocation Wrapper: \<open>invoke_model_with_retry\<close>\<close>

text \<open>
  A model is the injected call operation. One call \<open>model.invoke(...)\<close> on a prompt
  reads and changes the outside world \<open>'w\<close>, and either returns a response or raises an
  \<open>Exception\<close> (with its message). What the code does that can be observed is kept in
  a trace: the banner a stage prints on entry, each call of a model (its label, the
  zero-based attempt index, the prompt), and each \<open>time.sleep\<close>.
\<close>

datatype 'r outcome = Responded 'r | Failed string

datatype event = Banner nat | Invoke string nat string | Sleep int

type_synonym ('w, 'r) model = "string \<Rightarrow> 'w \<Rightarrow> 'r outcome \<times> 'w"

text \<open>
  \<open>time.sleep(secs)\<close> on an integer number of seconds: \<open>None\<close> when it sleeps
  and returns, or the exception it raises. It raises \<open>ValueError\<close> on a negative
  duration, and \<open>OverflowError\<close> on more than \<open>sleep_limit\<close> seconds, which do
  not fit the 64-bit count of nanoseconds that holds a duration. Below that limit the
  call is refused with \<open>OSError\<close> when the deadline, the monotonic clock plus the
  duration, does not fit; that depends on the clock, which the model does not hold.
  The model refuses every duration above \<open>sleep_safe\<close>. A duration it accepts is
  accepted by the code whenever the clock, apart from the time slept earlier in the same
  loop, reads less than \<open>10^9\<close> seconds: the waits of one loop double, so those
  before a wait add up to less than that wait, and the deadline stays below
  \<open>10^9 + 2 * sleep_safe\<close> seconds, under the limit.
\<close>

definition sleep_limit :: int where
  "sleep_limit = 9223372036"

definition sleep_safe :: int where
  "sleep_safe = 4000000000"

definition time_sleep :: "int \<Rightarrow> pyexn option" where
  "time_sleep secs =
     (if secs < 0 then Some ValueError
      else if sleep_limit < secs then Some OverflowError
      else if sleep_safe < secs then Some OSError
      else None)"

text \<open>
  The body of \<open>for attempt in range(max_retries)\<close>, over the attempts still to run.
  \<open>time.sleep\<close> is called inside the handler, so an exception it raises leaves the
  function. Falling off the end of the loop is the final \<open>return None\<close>.
\<close>

fun attempts ::
  "('w, 'r) model \<Rightarrow> string \<Rightarrow> string \<Rightarrow> int \<Rightarrow> int \<Rightarrow> nat list \<Rightarrow> 'w \<Rightarrow> event list
     \<Rightarrow> (pyexn + 'r option) \<times> 'w \<times> event list" where
  "attempts model prompt model_name max_retries initial_wait [] w tr = (Inr None, w, tr)"
| "attempts model prompt model_name max_retries initial_wait (attempt # rest) w tr =
     (case model prompt w of
        (Responded response, w') \<Rightarrow>
          (Inr (Some response), w', tr @ [Invoke model_name attempt prompt])
      | (Failed error_msg, w') \<Rightarrow>
          if int attempt < max_retries - 1 then
            (let wait_time = initial_wait * 2 ^ attempt in
             case time_sleep wait_time of
               Some e \<Rightarrow> (Inl e, w', tr @ [Invoke model_name attempt prompt])
             | None \<Rightarrow>
                 attempts model prompt model_name max_retries initial_wait rest w'
                   (tr @ [Invoke model_name attempt prompt, Sleep wait_time]))
          else (Inr None, w', tr @ [Invoke model_name attempt prompt]))"

definition invoke_model_with_retry ::
  "('w, 'r) model \<Rightarrow> string \<Rightarrow> string \<Rightarrow> int \<Rightarrow> int \<Rightarrow> 'w \<Rightarrow> event list
     \<Rightarrow> (pyexn + 'r option) \<times> 'w \<times> event list" where
  "invoke_model_with_retry model prompt model_name max_retries initial_wait w tr =
     attempts model prompt model_name max_retries initial_wait [0 ..< nat max_retries] w tr"

text \<open>
  To speak about a call operation: the outcome of its \<open>k\<close>-th call (zero-based) on a
  prompt, and the world after its first \<open>k\<close> calls, starting from the world \<open>w\<close>.
\<close>

fun world_after :: "('w, 'r) model \<Rightarrow> string \<Rightarrow> 'w \<Rightarrow> nat \<Rightarrow> 'w" where
  "world_after model prompt w 0 = w"
| "world_after model prompt w (Suc k) = world_after model prompt (snd (model prompt w)) k"

definition outcome_at :: "('w, 'r) model \<Rightarrow> string \<Rightarrow> 'w \<Rightarrow> nat \<Rightarrow> 'r outcome" where
  "outcome_at model prompt w k = fst (model prompt (world_after model prompt w k))"

fun is_failed :: "'r outcome \<Rightarrow> bool" where
  "is_failed (Failed error_msg) = True"
| "is_failed (Responded response) = False"

text \<open>
  The trace of \<open>n\<close> failed attempts, numbered from \<open>a\<close>, each followed by its backoff
  wait of \<open>initial_wait * 2 ^ attempt\<close>.
\<close>

fun backoff_trace :: "string \<Rightarrow> string \<Rightarrow> int \<Rightarrow> nat \<Rightarrow> nat \<Rightarrow> event list" where
  "backoff_trace model_name prompt initial_wait a 0 = []"
| "backoff_trace model_name prompt initial_wait a (Suc n) =
     [Invoke model_name a prompt, Sleep (initial_wait * 2 ^ a)]
       @ backoff_trace model_name prompt initial_wait (Suc a) n"

fun is_invoke :: "event \<Rightarrow> bool" where
  "is_invoke (Invoke model_name attempt prompt) = True"
| "is_invoke e = False"

text \<open>The stages entered, in order: the numbers of the banners in a trace.\<close>

fun stages_entered :: "event list \<Rightarrow> nat list" where
  "stages_entered [] = []"
| "stages_entered (Banner n # tr) = n # stages_entered tr"
| "stages_entered (e # tr) = stages_entered tr"

section \<open>Stage Orchestrator: \<open>CompanyAuditPipeline\<close>\<close>

text \<open>
  The object: its configuration, fixed by \<open>__init__\<close>, and \<open>stage_results\<close>, which
  the stages update. A response is represented by its \<open>content\<close> attribute.
\<close>

record 'w pipeline =
  company_name :: string
  stage_1_spec :: string
  stage_2_spec :: string
  stage_3_spec :: string
  stage_4_spec :: string
  stage_1_model :: "('w, pyval) model option"
  stage_2_model :: "('w, pyval) model option"
  stage_3_model :: "('w, pyval) model option"
  stage_4_model :: "('w, pyval) model option"
  stage_results :: "string \<rightharpoonup> pyval"

text \<open>
  \<open>__init__\<close>. The configuration \<open>STAGE_MODELS\<close>, and \<open>get_models\<close> and
  \<open>get_model_by_spec\<close>, which build the provider clients, are parameters.
  \<open>get_models\<close> may raise; an unavailable stage model raises
  \<open>Exception("Model initialization failed")\<close>.
\<close>

definition init ::
  "(string \<rightharpoonup> string) \<Rightarrow> pyexn + string list \<Rightarrow> (string \<Rightarrow> ('w, pyval) model option) \<Rightarrow> string
     \<Rightarrow> pyexn + 'w pipeline" where
  "init STAGE_MODELS get_models get_model_by_spec name =
     (case get_models of
        Inl e \<Rightarrow> Inl e
      | Inr models \<Rightarrow>
          (let spec_1 = (case STAGE_MODELS ''stage_1_gather_details'' of Some x \<Rightarrow> x | None \<Rightarrow> ''gemini'');
               spec_2 = (case STAGE_MODELS ''stage_2_generate_questions'' of Some x \<Rightarrow> x | None \<Rightarrow> ''groq'');
               spec_3 = (case STAGE_MODELS ''stage_3_answer_questions'' of Some x \<Rightarrow> x | None \<Rightarrow> ''groq'');
               spec_4 = (case STAGE_MODELS ''stage_4_score_results'' of Some x \<Rightarrow> x | None \<Rightarrow> ''cohere'')
           in case (get_model_by_spec spec_1, get_model_by_spec spec_2,
                    get_model_by_spec spec_3, get_model_by_spec spec_4) of
                (Some m1, Some m2, Some m3, Some m4) \<Rightarrow>
                  Inr \<lparr> company_name = name,
                        stage_1_spec = spec_1, stage_2_spec = spec_2,
                        stage_3_spec = spec_3, stage_4_spec = spec_4,
                        stage_1_model = Some m1, stage_2_model = Some m2,
                        stage_3_model = Some m3, stage_4_model = Some m4,
                        stage_results = Map.empty \<rparr>
              | _ \<Rightarrow> Inl OtherException))"

text \<open>
  The fixed instruction text of the four prompts is a parameter: the pieces of literal
  text around the values that the f-strings insert. Stage 1 inserts the company name
  between consecutive pieces; an inserted value is formatted as \<open>str()\<close> formats it.
\<close>

record prompt_text =
  p1_pieces :: "string list"
  p2_head :: string
  p2_tail :: string
  p3_head :: string
  p3_mid :: string
  p3_tail :: string
  p4_head :: string
  p4_tail :: string

definition stage_1_prompt :: "prompt_text \<Rightarrow> string \<Rightarrow> string" where
  "stage_1_prompt T name = join_strs name (p1_pieces T)"

definition stage_2_prompt :: "builtins \<Rightarrow> prompt_text \<Rightarrow> pyval \<Rightarrow> string" where
  "stage_2_prompt B T company_details = p2_head T @ py_str B company_details @ p2_tail T"

text \<open>\<open>json.dumps(x, indent=2)\<close> for a dictionary, \<open>str(x)\<close> otherwise.\<close>

definition format_for_prompt :: "builtins \<Rightarrow> pyval \<Rightarrow> string" where
  "format_for_prompt B x = (if is_dict x then json_dumps B x else py_str B x)"

definition stage_3_prompt :: "builtins \<Rightarrow> prompt_text \<Rightarrow> pyval \<Rightarrow> pyval \<Rightarrow> string" where
  "stage_3_prompt B T company_details questions =
     (let questions_text = format_for_prompt B questions in
      p3_head T @ py_str B company_details @ p3_mid T @ questions_text @ p3_tail T)"

text \<open>
  Stage 4 formats both \<open>answers\<close> and \<open>questions\<close>; its f-string inserts
  \<open>answers_text\<close> only.
\<close>

definition stage_4_prompt :: "builtins \<Rightarrow> prompt_text \<Rightarrow> pyval \<Rightarrow> pyval \<Rightarrow> string" where
  "stage_4_prompt B T questions answers =
     (let answers_text = format_for_prompt B answers;
          questions_text = format_for_prompt B questions
      in p4_head T @ answers_text @ p4_tail T)"

text \<open>
  After storing its result a stage prints a summary, still inside its \<open>try\<close>: only
  whether that raises matters. Stage 1 takes \<open>len(details)\<close>; stage 2's summary
  cannot raise on these values; stage 3 takes \<open>len\<close> of the \<open>responses\<close> entry of a
  dictionary (default \<open>[]\<close>); stage 4 calls \<open>.get\<close> on the \<open>overall_summary\<close>
  entry of a dictionary, an \<open>AttributeError\<close> unless that is a dictionary.
\<close>

definition summary_1 :: "pyval \<Rightarrow> pyexn + unit" where
  "summary_1 details = (case py_len details of Inl e \<Rightarrow> Inl e | Inr n \<Rightarrow> Inr ())"

definition summary_3 :: "pyval \<Rightarrow> pyexn + unit" where
  "summary_3 answers_json =
     (case answers_json of
        PDict d \<Rightarrow>
          (case py_len (case map_of d ''responses'' of Some v \<Rightarrow> v | None \<Rightarrow> PList []) of
             Inl e \<Rightarrow> Inl e
           | Inr n \<Rightarrow> Inr ())
      | _ \<Rightarrow> Inr ())"

definition summary_4 :: "pyval \<Rightarrow> pyexn + unit" where
  "summary_4 scores_json =
     (case scores_json of
        PDict d \<Rightarrow>
          (case map_of d ''overall_summary'' of
             Some summary \<Rightarrow> if is_dict summary then Inr () else Inl AttributeError
           | None \<Rightarrow> Inr ())
      | _ \<Rightarrow> Inr ())"

text \<open>
  The four stage methods. Each returns the value the method returns (\<open>PNone\<close> for
  \<open>None\<close>), the updated object, the world and the trace. Every exception raised
  inside the \<open>try\<close> is caught by \<open>except Exception\<close>, and the method returns
  \<open>None\<close>.
\<close>

definition stage_1_company_details ::
  "builtins \<Rightarrow> prompt_text \<Rightarrow> 'w pipeline \<Rightarrow> 'w \<Rightarrow> event list
     \<Rightarrow> pyval \<times> 'w pipeline \<times> 'w \<times> event list" where
  "stage_1_company_details B T self w tr =
     (case stage_1_model self of
        None \<Rightarrow> (PNone, self, w, tr @ [Banner 1])
      | Some model \<Rightarrow>
          (case invoke_model_with_retry model (stage_1_prompt T (company_name self))
                  (stage_1_spec self) 3 2 w (tr @ [Banner 1]) of
             (Inl e, w', tr') \<Rightarrow> (PNone, self, w', tr')
           | (Inr None, w', tr') \<Rightarrow> (PNone, self, w', tr')
           | (Inr (Some content), w', tr') \<Rightarrow>
               (case extract_text_content B content of
                  Inl e \<Rightarrow> (PNone, self, w', tr')
                | Inr details \<Rightarrow>
                    (let self' = self\<lparr>stage_results := (stage_results self)(''company_details'' \<mapsto> details)\<rparr>
                     in case summary_1 details of
                          Inl e \<Rightarrow> (PNone, self', w', tr')
                        | Inr u \<Rightarrow> (details, self', w', tr')))))"

definition stage_2_generate_questions ::
  "builtins \<Rightarrow> prompt_text \<Rightarrow> 'w pipeline \<Rightarrow> pyval \<Rightarrow> 'w \<Rightarrow> event list
     \<Rightarrow> pyval \<times> 'w pipeline \<times> 'w \<times> event list" where
  "stage_2_generate_questions B T self company_details w tr =
     (case stage_2_model self of
        None \<Rightarrow> (PNone, self, w, tr @ [Banner 2])
      | Some model \<Rightarrow>
          if \<not> truthy company_details then (PNone, self, w, tr @ [Banner 2])
          else
            (case invoke_model_with_retry model (stage_2_prompt B T company_details)
                    (stage_2_spec self) 3 2 w (tr @ [Banner 2]) of
               (Inl e, w', tr') \<Rightarrow> (PNone, self, w', tr')
             | (Inr None, w', tr') \<Rightarrow> (PNone, self, w', tr')
             | (Inr (Some content), w', tr') \<Rightarrow>
                 (case extract_text_content B content of
                    Inl e \<Rightarrow> (PNone, self, w', tr')
                  | Inr questions_text \<Rightarrow>
                      (case try_parse_json B questions_text of
                         Inl e \<Rightarrow> (PNone, self, w', tr')
                       | Inr questions_json \<Rightarrow>
                           (questions_json,
                            self\<lparr>stage_results := (stage_results self)(''questions'' \<mapsto> questions_json)\<rparr>,
                            w', tr')))))"

definition stage_3_answer_questions ::
  "builtins \<Rightarrow> prompt_text \<Rightarrow> 'w pipeline \<Rightarrow> pyval \<Rightarrow> pyval \<Rightarrow> 'w \<Rightarrow> event list
     \<Rightarrow> pyval \<times> 'w pipeline \<times> 'w \<times> event list" where
  "stage_3_answer_questions B T self company_details questions w tr =
     (case stage_3_model self of
        None \<Rightarrow> (PNone, self, w, tr @ [Banner 3])
      | Some model \<Rightarrow>
          if \<not> truthy questions \<or> \<not> truthy company_details then (PNone, self, w, tr @ [Banner 3])
          else
            (case invoke_model_with_retry model (stage_3_prompt B T company_details questions)
                    (stage_3_spec self) 3 3 w (tr @ [Banner 3]) of
               (Inl e, w', tr') \<Rightarrow> (PNone, self, w', tr')
             | (Inr None, w', tr') \<Rightarrow> (PNone, self, w', tr')
             | (Inr (Some content), w', tr') \<Rightarrow>
                 (case extract_text_content B content of
                    Inl e \<Rightarrow> (PNone, self, w', tr')
                  | Inr answers_text \<Rightarrow>
                      (case try_parse_json B answers_text of
                         Inl e \<Rightarrow> (PNone, self, w', tr')
                       | Inr answers_json \<Rightarrow>
                           (let self' = self\<lparr>stage_results := (stage_results self)(''answers'' \<mapsto> answers_json)\<rparr>
                            in case summary_3 answers_json of
                                 Inl e \<Rightarrow> (PNone, self', w', tr')
                               | Inr u \<Rightarrow> (answers_json, self', w', tr'))))))"

definition stage_4_score_results ::
  "builtins \<Rightarrow> prompt_text \<Rightarrow> 'w pipeline \<Rightarrow> pyval \<Rightarrow> pyval \<Rightarrow> 'w \<Rightarrow> event list
     \<Rightarrow> pyval \<times> 'w pipeline \<times> 'w \<times> event list" where
  "stage_4_score_results B T self questions answers w tr =
     (case stage_4_model self of
        None \<Rightarrow> (PNone, self, w, tr @ [Banner 4])
      | Some model \<Rightarrow>
          if \<not> truthy answers then (PNone, self, w, tr @ [Banner 4])
          else
            (case invoke_model_with_retry model (stage_4_prompt B T questions answers)
                    (stage_4_spec self) 3 2 w (tr @ [Banner 4]) of
               (Inl e, w', tr') \<Rightarrow> (PNone, self, w', tr')
             | (Inr None, w', tr') \<Rightarrow> (PNone, self, w', tr')
             | (Inr (Some content), w', tr') \<Rightarrow>
                 (case extract_text_content B content of
                    Inl e \<Rightarrow> (PNone, self, w', tr')
                  | Inr scores_text \<Rightarrow>
                      (case try_parse_json B scores_text of
                         Inl e \<Rightarrow> (PNone, self, w', tr')
                       | Inr scores_json \<Rightarrow>
                           (let self' = self\<lparr>stage_results := (stage_results self)(''scores'' \<mapsto> scores_json)\<rparr>
                            in case summary_4 scores_json of
                                 Inl e \<Rightarrow> (PNone, self', w', tr')
                               | Inr u \<Rightarrow> (scores_json, self', w', tr'))))))"

text \<open>
  \<open>run_full_pipeline\<close>: the run starts with an empty trace and stops, returning
  \<open>False\<close>, at the first stage whose return value is not truthy.
\<close>

definition run_full_pipeline ::
  "builtins \<Rightarrow> prompt_text \<Rightarrow> 'w pipeline \<Rightarrow> 'w \<Rightarrow> bool \<times> 'w pipeline \<times> 'w \<times> event list" where
  "run_full_pipeline B T self w =
     (case stage_1_company_details B T self w [] of
        (company_details, self1, w1, tr1) \<Rightarrow>
          if \<not> truthy company_details then (False, self1, w1, tr1)
          else
            (case stage_2_generate_questions B T self1 company_details w1 tr1 of
               (questions, self2, w2, tr2) \<Rightarrow>
                 if \<not> truthy questions then (False, self2, w2, tr2)
                 else
                   (case stage_3_answer_questions B T self2 company_details questions w2 tr2 of
                      (answers, self3, w3, tr3) \<Rightarrow>
                        if \<not> truthy answers then (False, self3, w3, tr3)
                        else
                          (case stage_4_score_results B T self3 questions answers w3 tr3 of
                             (scores, self4, w4, tr4) \<Rightarrow>
                               if \<not> truthy scores then (False, self4, w4, tr4)
                               else (True, self4, w4, tr4)))))"

text \<open>The components of what a stage method or a run returns.\<close>

abbreviation value_of :: "'a \<times> 'b \<times> 'c \<times> 'd \<Rightarrow> 'a" where
  "value_of r \<equiv> fst r"

abbreviation self_of :: "'a \<times> 'b \<times> 'c \<times> 'd \<Rightarrow> 'b" where
  "self_of r \<equiv> fst (snd r)"

abbreviation world_of :: "'a \<times> 'b \<times> 'c \<times> 'd \<Rightarrow> 'c" where
  "world_of r \<equiv> fst (snd (snd r))"

abbreviation trace_of :: "'a \<times> 'b \<times> 'c \<times> 'd \<Rightarrow> 'd" where
  "trace_of r \<equiv> snd (snd (snd r))"

section \<open>Concrete models and a concrete pipeline\<close>

text \<open>
  Call operations for concrete runs, over a world that counts the calls made: one that
  always answers with the same content, one that always raises, and one that raises on
  the first two calls made in the world and answers from the third on.
\<close>

definition says :: "'r \<Rightarrow> (nat, 'r) model" where
  "says content prompt w = (Responded content, Suc w)"

definition unreachable :: "(nat, 'r) model" where
  "unreachable prompt w = (Failed ''connection refused'', Suc w)"

definition flaky :: "'r \<Rightarrow> (nat, 'r) model" where
  "flaky content prompt w = (if w < 2 then Failed ''timeout'' else Responded content, Suc w)"

definition demo_text :: prompt_text where
  "demo_text =
     \<lparr> p1_pieces = [''Describe '', ''.''],
       p2_head = ''Profile: '', p2_tail = '' Ask.'',
       p3_head = ''Profile: '', p3_mid = '' Questions: '', p3_tail = '' Answer.'',
       p4_head = ''Input: '', p4_tail = '' Score.'' \<rparr>"

text \<open>A pipeline as \<open>__init__\<close> leaves it, with the stage specifications of \<open>settings.py\<close>.\<close>

definition demo_pipeline ::
  "(nat, pyval) model \<Rightarrow> (nat, pyval) model \<Rightarrow> (nat, pyval) model \<Rightarrow> (nat, pyval) model
     \<Rightarrow> nat pipeline" where
  "demo_pipeline m1 m2 m3 m4 =
     \<lparr> company_name = ''Open AI'',
       stage_1_spec = ''gemini'',
       stage_2_spec = ''groq:llama-3.3-70b-versatile'',
       stage_3_spec = ''groq:openai/gpt-oss-120b'',
       stage_4_spec = ''cohere'',
       stage_1_model = Some m1, stage_2_model = Some m2,
       stage_3_model = Some m3, stage_4_model = Some m4,
       stage_results = Map.empty \<rparr>"

lemmas string_ops =
  strip_def isspace_def startswith_def endswith_def find_chr_def rfind_chr_def slice_def
  split_chr_def clean_json_string_def

lemmas strategy_defs =
  strategy_1_def strategy_2_def extract_between_def strategy_3_def strategy_4_def
  strategy_5_def strategy_6_def or_else_def

lemmas small_defs = small_builtins_def loads_small_def json_ws_def

section \<open>Properties of the Text Extractor\<close>

text \<open>
  Claim C8. On a plain string the Text Extractor returns that same string, unchanged,
  whatever the library functions are.
\<close>

theorem extract_text_content_str_identity:
  "extract_text_content B (PStr s) = Inr (PStr s)"
  by simp

text \<open>
  Claim C3. The claim is that the Text Extractor raises no exception and returns a string
  on every input shape. The code does neither when the value under \<open>text\<close> (or
  \<open>content\<close>) of a dictionary is not a string: on the list \<open>[{"text": 1}]\<close> the
  \<open>join\<close> raises \<open>TypeError\<close>, and on the dictionary \<open>{"text": 1}\<close> the
  integer \<open>1\<close> is returned.
\<close>

theorem extract_text_content_non_string_value:
  "extract_text_content B (PList [PDict [(''text'', PInt 1)]]) = Inl TypeError
   \<and> extract_text_content B (PDict [(''text'', PInt 1)]) = Inr (PInt 1)"
  by (simp add: py_join_def)

text \<open>When every part collected from a list body is a string, the result is a string.\<close>

lemma extract_text_content_list_of_strs:
  assumes "strs_of (collect_parts [] items) = Some ss"
  shows "\<exists>s. extract_text_content B (PList items) = Inr (PStr s)"
  using assms by (simp add: py_join_def Let_def)

section \<open>Properties of the recovery parser\<close>

text \<open>
  Claim C1. The claim is that on every string on which no strategy produces a structured
  value the parser returns that string itself, never \<open>None\<close> and never an exception.
  The code breaks it in two ways. The handlers of strategies 1 and 2 catch
  \<open>JSONDecodeError\<close> only, where those of strategies 3 to 5 catch \<open>ValueError\<close>
  as well: on a string of 4301 digits the decoder raises a \<open>ValueError\<close> that is not
  a \<open>JSONDecodeError\<close>, and it leaves \<open>try_parse_json\<close>. And strategies 1 to 5
  return whatever the decoder returns, where strategy 6 returns dictionaries and lists
  only: on the three lines \<open># c\<close>, an empty line and \<open>null\<close>, strategy 5 drops the
  first two, parses \<open>null\<close>, and the parser returns \<open>None\<close>.
\<close>

theorem try_parse_json_raises_or_returns_none:
  "try_parse_json digits_builtins (PStr (replicate 4301 (CHR ''1''))) = Inl ValueError
   \<and> try_parse_json small_builtins (PStr (''# c'' @ [newline, newline] @ ''null'')) = Inr PNone"
proof -
  have "json_loads digits_builtins (replicate 4301 (CHR ''1'')) = Inl ValueError"
    by (simp add: digits_builtins_def loads_digits_def is_digit_def list_all_iff)
  then have a: "try_parse_json digits_builtins (PStr (replicate 4301 (CHR ''1''))) = Inl ValueError"
    by (simp add: try_parse_json_def strategy_1_def or_else_def)
  have b: "try_parse_json small_builtins (PStr (''# c'' @ [newline, newline] @ ''null'')) = Inr PNone"
    by (simp add: try_parse_json_def strategy_defs string_ops small_defs)
  show ?thesis using a b by simp
qed

text \<open>
  What the cascade does by its last line: when control falls through all six strategies,
  the original string is returned. So it is on the string \<open>I cannot comply.\<close>
\<close>

lemma try_parse_json_falls_back:
  assumes "strategy_1 B s = Fell_through"
    and "strategy_2 B s (clean_json_string s) = Fell_through"
    and "strategy_3 B (clean_json_string s) = Fell_through"
    and "strategy_4 B (clean_json_string s) = Fell_through"
    and "strategy_5 B (clean_json_string s) = Fell_through"
    and "strategy_6 B (clean_json_string s) = Fell_through"
  shows "try_parse_json B (PStr s) = Inr (PStr s)"
  using assms by (simp add: try_parse_json_def or_else_def)

lemma try_parse_json_no_structure:
  "try_parse_json small_builtins (PStr ''I cannot comply.'') = Inr (PStr ''I cannot comply.'')"
  by (simp add: try_parse_json_def strategy_defs string_ops small_defs upt_conv_Cons)

text \<open>
  In general: an exception of the direct parse that is not a \<open>JSONDecodeError\<close> is
  not caught by the handler of strategy 1 and reaches the caller.
\<close>

lemma try_parse_json_direct_parse_escapes:
  assumes "json_loads B s = Inl e" and "\<not> caught_by_JSONDecodeError e"
  shows "try_parse_json B (PStr s) = Inl e"
  using assms by (simp add: try_parse_json_def strategy_1_def or_else_def)

text \<open>
  Claim C9. A value that is not a string is returned unchanged. So a structured value
  that the parser has returned is returned again unchanged when the parser is applied
  to it: on its structured outputs the parser is the identity.
\<close>

theorem try_parse_json_non_string_identity:
  assumes "\<not> is_str v"
  shows "try_parse_json B v = Inr v"
  using assms by (cases v) (simp_all add: try_parse_json_def)

theorem try_parse_json_non_string_identity_witness:
  "\<not> is_str (PDict [(''x'', PInt 2)])
   \<and> try_parse_json small_builtins (PDict [(''x'', PInt 2)]) = Inr (PDict [(''x'', PInt 2)])
   \<and> try_parse_json small_builtins (PList []) = Inr (PList [])"
proof -
  have d: "\<not> is_str (PDict [(''x'', PInt 2)])" and l: "\<not> is_str (PList [])"
    by simp_all
  show ?thesis
    using try_parse_json_non_string_identity [OF d, of small_builtins]
      try_parse_json_non_string_identity [OF l, of small_builtins] d
    by simp
qed

section \<open>Properties of the invocation wrapper\<close>

text \<open>
  The loop, when the first \<open>d\<close> remaining attempts fail, their waits are accepted by
  \<open>time.sleep\<close>, and the next attempt answers.
\<close>

lemma attempts_first_success:
  assumes "a + d < nat max_retries"
    and "\<forall>j<d. is_failed (outcome_at model prompt w j)"
    and "outcome_at model prompt w d = Responded r"
    and "\<forall>j<d. time_sleep (initial_wait * 2 ^ (a + j)) = None"
  shows "attempts model prompt name max_retries initial_wait [a ..< nat max_retries] w tr =
           (Inr (Some r), world_after model prompt w (Suc d),
            tr @ backoff_trace name prompt initial_wait a d @ [Invoke name (a + d) prompt])"
  using assms
proof (induction d arbitrary: a w tr)
  case 0
  then have "a < nat max_retries" by simp
  then have "[a ..< nat max_retries] = a # [Suc a ..< nat max_retries]"
    by (rule upt_conv_Cons)
  moreover obtain w' where "model prompt w = (Responded r, w')"
    using 0(3) by (cases "model prompt w") (simp add: outcome_at_def)
  ultimately show ?case by simp
next
  case (Suc d)
  then have lt: "a < nat max_retries" and more: "int a < max_retries - 1" by auto
  have split: "[a ..< nat max_retries] = a # [Suc a ..< nat max_retries]"
    using lt by (rule upt_conv_Cons)
  have "is_failed (outcome_at model prompt w 0)" using Suc.prems(2) by blast
  then obtain msg w' where call: "model prompt w = (Failed msg, w')"
    by (cases "model prompt w"; cases "fst (model prompt w)") (auto simp: outcome_at_def)
  have "time_sleep (initial_wait * 2 ^ (a + 0)) = None" using Suc.prems(4) by blast
  then have wait: "time_sleep (initial_wait * 2 ^ a) = None" by simp
  have ih: "attempts model prompt name max_retries initial_wait [Suc a ..< nat max_retries] w'
              (tr @ [Invoke name a prompt, Sleep (initial_wait * 2 ^ a)]) =
            (Inr (Some r), world_after model prompt w' (Suc d),
             (tr @ [Invoke name a prompt, Sleep (initial_wait * 2 ^ a)])
               @ backoff_trace name prompt initial_wait (Suc a) d @ [Invoke name (Suc a + d) prompt])"
  proof (rule Suc.IH)
    show "Suc a + d < nat max_retries" using Suc.prems(1) by simp
    show "\<forall>j<d. is_failed (outcome_at model prompt w' j)"
    proof (intro allI impI)
      fix j assume "j < d"
      then have "is_failed (outcome_at model prompt w (Suc j))" using Suc.prems(2) by simp
      then show "is_failed (outcome_at model prompt w' j)" using call by (simp add: outcome_at_def)
    qed
    show "outcome_at model prompt w' d = Responded r"
      using Suc.prems(3) call by (simp add: outcome_at_def)
    show "\<forall>j<d. time_sleep (initial_wait * 2 ^ (Suc a + j)) = None"
    proof (intro allI impI)
      fix j assume "j < d"
      then have "Suc j < Suc d" by simp
      with Suc.prems(4) have "time_sleep (initial_wait * 2 ^ (a + Suc j)) = None" by blast
      then show "time_sleep (initial_wait * 2 ^ (Suc a + j)) = None" by simp
    qed
  qed
  show ?case using split call more wait ih by (simp add: Let_def)
qed

text \<open>
  The loop, when all of the \<open>d + 1\<close> remaining attempts fail and the waits between
  them are accepted by \<open>time.sleep\<close>.
\<close>

lemma attempts_all_failed:
  assumes "a + Suc d = nat max_retries"
    and "\<forall>j\<le>d. is_failed (outcome_at model prompt w j)"
    and "\<forall>j<d. time_sleep (initial_wait * 2 ^ (a + j)) = None"
  shows "attempts model prompt name max_retries initial_wait [a ..< nat max_retries] w tr =
           (Inr None, world_after model prompt w (Suc d),
            tr @ backoff_trace name prompt initial_wait a d @ [Invoke name (a + d) prompt])"
  using assms
proof (induction d arbitrary: a w tr)
  case 0
  then have split: "[a ..< nat max_retries] = [a]" by (simp add: upt_conv_Cons)
  have last: "\<not> int a < max_retries - 1" using 0(1) by simp
  have "is_failed (outcome_at model prompt w 0)" using 0(2) by blast
  then obtain msg w' where call: "model prompt w = (Failed msg, w')"
    by (cases "model prompt w"; cases "fst (model prompt w)") (auto simp: outcome_at_def)
  show ?case using split last call by simp
next
  case (Suc d)
  then have lt: "a < nat max_retries" and more: "int a < max_retries - 1" by auto
  have split: "[a ..< nat max_retries] = a # [Suc a ..< nat max_retries]"
    using lt by (rule upt_conv_Cons)
  have "is_failed (outcome_at model prompt w 0)" using Suc.prems(2) by blast
  then obtain msg w' where call: "model prompt w = (Failed msg, w')"
    by (cases "model prompt w"; cases "fst (model prompt w)") (auto simp: outcome_at_def)
  have "time_sleep (initial_wait * 2 ^ (a + 0)) = None" using Suc.prems(3) by blast
  then have wait: "time_sleep (initial_wait * 2 ^ a) = None" by simp
  have ih: "attempts model prompt name max_retries initial_wait [Suc a ..< nat max_retries] w'
              (tr @ [Invoke name a prompt, Sleep (initial_wait * 2 ^ a)]) =
            (Inr None, world_after model prompt w' (Suc d),
             (tr @ [Invoke name a prompt, Sleep (initial_wait * 2 ^ a)])
               @ backoff_trace name prompt initial_wait (Suc a) d @ [Invoke name (Suc a + d) prompt])"
  proof (rule Suc.IH)
    show "Suc a + Suc d = nat max_retries" using Suc.prems(1) by simp
    show "\<forall>j\<le>d. is_failed (outcome_at model prompt w' j)"
    proof (intro allI impI)
      fix j assume "j \<le> d"
      then have "is_failed (outcome_at model prompt w (Suc j))" using Suc.prems(2) by simp
      then show "is_failed (outcome_at model prompt w' j)" using call by (simp add: outcome_at_def)
    qed
    show "\<forall>j<d. time_sleep (initial_wait * 2 ^ (Suc a + j)) = None"
    proof (intro allI impI)
      fix j assume "j < d"
      then have "Suc j < Suc d" by simp
      with Suc.prems(3) have "time_sleep (initial_wait * 2 ^ (a + Suc j)) = None" by blast
      then show "time_sleep (initial_wait * 2 ^ (Suc a + j)) = None" by simp
    qed
  qed
  show ?case using split call more wait ih by (simp add: Let_def)
qed

text \<open>The loop calls the model at most once for each attempt it is given.\<close>

lemma attempts_count:
  "length (filter is_invoke (snd (snd (attempts model prompt name max_retries initial_wait as w tr))))
     \<le> length (filter is_invoke tr) + length as"
proof (induction as arbitrary: w tr)
  case Nil
  show ?case by simp
next
  case (Cons attempt rest)
  obtain out w' where call: "model prompt w = (out, w')" by (cases "model prompt w")
  show ?case
  proof (cases out)
    case (Responded r)
    with call show ?thesis by simp
  next
    case (Failed msg)
    have "length (filter is_invoke (snd (snd (attempts model prompt name max_retries initial_wait rest w'
             (tr @ [Invoke name attempt prompt, Sleep (initial_wait * 2 ^ attempt)])))))
          \<le> length (filter is_invoke (tr @ [Invoke name attempt prompt, Sleep (initial_wait * 2 ^ attempt)])) + length rest"
      by (rule Cons.IH)
    with call Failed show ?thesis by (simp add: Let_def split: option.splits)
  qed
qed

text \<open>
  Claim C2. The claim is made for every \<open>initial_wait\<close>. As amended, the waits are
  durations that \<open>time.sleep\<close> accepts. For every call operation, started in any world:
  \<^item> if the first \<open>k\<close> calls fail, the wait \<open>initial_wait * 2 ^ j\<close> after each of them
    is accepted, and call \<open>k\<close>, within the budget, answers \<open>r\<close>, the wrapper returns
    \<open>r\<close> at once, having slept \<open>initial_wait * 2 ^ j\<close> after each failed attempt
    \<open>j\<close> and made no call after attempt \<open>k\<close>;
  \<^item> if every call within a budget of at least one attempt fails, and the wait after
    each attempt but the last is accepted, it returns \<open>None\<close> after the last attempt,
    with no sleep after it and no exception;
  \<^item> in every case, whatever the waits, it calls the operation at most
    \<open>max_retries\<close> times.
\<close>

theorem invoke_model_with_retry_contract:
  "(\<forall>k r. k < nat max_retries
        \<and> (\<forall>j<k. is_failed (outcome_at model prompt w j))
        \<and> (\<forall>j<k. time_sleep (initial_wait * 2 ^ j) = None)
        \<and> outcome_at model prompt w k = Responded r
      \<longrightarrow> invoke_model_with_retry model prompt name max_retries initial_wait w tr =
            (Inr (Some r), world_after model prompt w (Suc k),
             tr @ backoff_trace name prompt initial_wait 0 k @ [Invoke name k prompt]))
   \<and> (0 < max_retries
        \<and> (\<forall>j < nat max_retries. is_failed (outcome_at model prompt w j))
        \<and> (\<forall>j. Suc j < nat max_retries \<longrightarrow> time_sleep (initial_wait * 2 ^ j) = None)
      \<longrightarrow> invoke_model_with_retry model prompt name max_retries initial_wait w tr =
            (Inr None, world_after model prompt w (nat max_retries),
             tr @ backoff_trace name prompt initial_wait 0 (nat max_retries - 1)
                @ [Invoke name (nat max_retries - 1) prompt]))
   \<and> length (filter is_invoke
        (snd (snd (invoke_model_with_retry model prompt name max_retries initial_wait w tr))))
       \<le> length (filter is_invoke tr) + nat max_retries"
proof (intro conjI allI impI)
  fix k r
  assume h: "k < nat max_retries
        \<and> (\<forall>j<k. is_failed (outcome_at model prompt w j))
        \<and> (\<forall>j<k. time_sleep (initial_wait * 2 ^ j) = None)
        \<and> outcome_at model prompt w k = Responded r"
  have "attempts model prompt name max_retries initial_wait [0 ..< nat max_retries] w tr =
          (Inr (Some r), world_after model prompt w (Suc k),
           tr @ backoff_trace name prompt initial_wait 0 k @ [Invoke name (0 + k) prompt])"
    by (rule attempts_first_success) (use h in simp_all)
  then show "invoke_model_with_retry model prompt name max_retries initial_wait w tr =
          (Inr (Some r), world_after model prompt w (Suc k),
           tr @ backoff_trace name prompt initial_wait 0 k @ [Invoke name k prompt])"
    by (simp add: invoke_model_with_retry_def)
next
  assume h: "0 < max_retries
        \<and> (\<forall>j < nat max_retries. is_failed (outcome_at model prompt w j))
        \<and> (\<forall>j. Suc j < nat max_retries \<longrightarrow> time_sleep (initial_wait * 2 ^ j) = None)"
  then obtain d where d: "nat max_retries = Suc d"
    by (cases "nat max_retries") auto
  have "attempts model prompt name max_retries initial_wait [0 ..< nat max_retries] w tr =
          (Inr None, world_after model prompt w (Suc d),
           tr @ backoff_trace name prompt initial_wait 0 d @ [Invoke name (0 + d) prompt])"
    by (rule attempts_all_failed) (use h d in \<open>simp_all add: less_Suc_eq_le\<close>)
  then show "invoke_model_with_retry model prompt name max_retries initial_wait w tr =
          (Inr None, world_after model prompt w (nat max_retries),
           tr @ backoff_trace name prompt initial_wait 0 (nat max_retries - 1)
              @ [Invoke name (nat max_retries - 1) prompt])"
    by (simp add: invoke_model_with_retry_def d)
next
  show "length (filter is_invoke
            (snd (snd (invoke_model_with_retry model prompt name max_retries initial_wait w tr))))
           \<le> length (filter is_invoke tr) + nat max_retries"
    using attempts_count [of model prompt name max_retries initial_wait "[0 ..< nat max_retries]" w tr]
    by (simp add: invoke_model_with_retry_def)
qed

theorem invoke_model_with_retry_contract_witness:
  "invoke_model_with_retry (flaky ''ok'') ''p'' ''m'' 3 2 0 [] =
     (Inr (Some ''ok''), 3,
      [Invoke ''m'' 0 ''p'', Sleep 2, Invoke ''m'' 1 ''p'', Sleep 4, Invoke ''m'' 2 ''p''])
   \<and> invoke_model_with_retry (unreachable :: (nat, string) model) ''p'' ''m'' 3 2 0 [] =
     (Inr None, 3,
      [Invoke ''m'' 0 ''p'', Sleep 2, Invoke ''m'' 1 ''p'', Sleep 4, Invoke ''m'' 2 ''p''])"
proof -
  have three: "nat 3 = Suc (Suc (Suc 0))" by simp
  have sl: "\<forall>j<2. time_sleep (2 * 2 ^ j) = None"
    by (simp add: time_sleep_def sleep_limit_def sleep_safe_def numeral_2_eq_2 less_Suc_eq)
  have f: "(2::nat) < nat 3
             \<and> (\<forall>j<2. is_failed (outcome_at (flaky ''ok'') ''p'' 0 j))
             \<and> (\<forall>j<2. time_sleep (2 * 2 ^ j) = None)
             \<and> outcome_at (flaky ''ok'') ''p'' 0 2 = Responded ''ok''"
    using sl by (simp add: outcome_at_def flaky_def numeral_2_eq_2 less_Suc_eq)
  have sl': "\<forall>j. Suc j < nat 3 \<longrightarrow> time_sleep (2 * 2 ^ j) = None"
    using sl by (simp add: three numeral_2_eq_2 del: nat_numeral)
  have u: "(0::int) < 3
             \<and> (\<forall>j < nat 3. is_failed (outcome_at (unreachable :: (nat, string) model) ''p'' 0 j))
             \<and> (\<forall>j. Suc j < nat 3 \<longrightarrow> time_sleep (2 * 2 ^ j) = None)"
    using sl' by (simp add: outcome_at_def unreachable_def three less_Suc_eq del: nat_numeral)
  have a: "invoke_model_with_retry (flaky ''ok'') ''p'' ''m'' 3 2 0 [] =
     (Inr (Some ''ok''), world_after (flaky ''ok'') ''p'' 0 (Suc 2),
      [] @ backoff_trace ''m'' ''p'' 2 0 2 @ [Invoke ''m'' 2 ''p''])"
    using invoke_model_with_retry_contract [of 3 "flaky ''ok''" "''p''" 0 2 "''m''" "[]"] f
    by blast
  have b: "invoke_model_with_retry (unreachable :: (nat, string) model) ''p'' ''m'' 3 2 0 [] =
     (Inr None, world_after (unreachable :: (nat, string) model) ''p'' 0 (nat 3),
      [] @ backoff_trace ''m'' ''p'' 2 0 (nat 3 - 1) @ [Invoke ''m'' (nat 3 - 1) ''p''])"
    using invoke_model_with_retry_contract [of 3 "unreachable :: (nat, string) model" "''p''" 0 2 "''m''" "[]"] u
    by blast
  show ?thesis
    unfolding a b by (simp add: numeral_2_eq_2 numeral_3_eq_3 flaky_def unreachable_def)
qed

text \<open>
  Claim C2 fails when \<open>time.sleep\<close> refuses the wait. With \<open>initial_wait = -1\<close>, and
  with \<open>initial_wait = 10^10\<close>, an operation that always fails is called once: the
  wait after the first failed attempt raises \<open>ValueError\<close>, or \<open>OverflowError\<close>,
  inside the handler, and the exception reaches the caller with two attempts left.
\<close>

theorem invoke_model_with_retry_refused_wait_counterexample:
  "invoke_model_with_retry (unreachable :: (nat, string) model) ''p'' ''m'' 3 (- 1) 0 [] =
     (Inl ValueError, 1, [Invoke ''m'' 0 ''p''])
   \<and> invoke_model_with_retry (unreachable :: (nat, string) model) ''p'' ''m'' 3 10000000000 0 [] =
     (Inl OverflowError, 1, [Invoke ''m'' 0 ''p''])"
  by (simp add: invoke_model_with_retry_def unreachable_def time_sleep_def sleep_limit_def
        upt_conv_Cons)

text \<open>
  Claim C10. With \<open>max_retries\<close> zero or negative the wrapper calls nothing and sleeps
  not at all (world and trace are unchanged), and returns \<open>None\<close>.
\<close>

theorem invoke_model_with_retry_no_budget:
  assumes "max_retries \<le> 0"
  shows "invoke_model_with_retry model prompt name max_retries initial_wait w tr = (Inr None, w, tr)"
  using assms by (simp add: invoke_model_with_retry_def)

theorem invoke_model_with_retry_no_budget_witness:
  "invoke_model_with_retry (says ''ok'') ''p'' ''m'' 0 2 0 [] = (Inr None, 0, [])
   \<and> invoke_model_with_retry (says ''ok'') ''p'' ''m'' (- 1) 2 0 [] = (Inr None, 0, [])"
proof -
  have z: "(0::int) \<le> 0" and n: "(- 1::int) \<le> 0" by simp_all
  show ?thesis
    using invoke_model_with_retry_no_budget [OF z, of "says ''ok''" "''p''" "''m''" 2 0 "[]"]
      invoke_model_with_retry_no_budget [OF n, of "says ''ok''" "''p''" "''m''" 2 0 "[]"]
    by simp
qed

section \<open>Properties of the orchestrator\<close>

lemmas run_defs =
  stage_1_company_details_def stage_2_generate_questions_def stage_3_answer_questions_def
  stage_4_score_results_def invoke_model_with_retry_def stage_1_prompt_def stage_2_prompt_def
  stage_3_prompt_def stage_4_prompt_def format_for_prompt_def py_str_def summary_1_def
  summary_3_def summary_4_def demo_pipeline_def demo_text_def says_def unreachable_def

text \<open>The wrapper prints no banner, and each stage method prints exactly its own.\<close>

lemma stages_entered_append:
  "stages_entered (xs @ ys) = stages_entered xs @ stages_entered ys"
  by (induction xs rule: stages_entered.induct) simp_all

lemma attempts_stages_entered:
  "stages_entered (snd (snd (attempts model prompt name max_retries initial_wait as w tr))) = stages_entered tr"
proof (induction as arbitrary: w tr)
  case Nil
  show ?case by simp
next
  case (Cons attempt rest)
  obtain out w' where call: "model prompt w = (out, w')" by (cases "model prompt w")
  show ?case
  proof (cases out)
    case (Responded r)
    with call show ?thesis by (simp add: stages_entered_append)
  next
    case (Failed msg)
    have "stages_entered (snd (snd (attempts model prompt name max_retries initial_wait rest w'
             (tr @ [Invoke name attempt prompt, Sleep (initial_wait * 2 ^ attempt)]))))
          = stages_entered (tr @ [Invoke name attempt prompt, Sleep (initial_wait * 2 ^ attempt)])"
      by (rule Cons.IH)
    with call Failed show ?thesis
      by (simp add: Let_def stages_entered_append split: option.splits)
  qed
qed

lemma retry_stages_entered:
  "invoke_model_with_retry model prompt name max_retries initial_wait w tr = (res, w', tr')
     \<Longrightarrow> stages_entered tr' = stages_entered tr"
  using attempts_stages_entered [of model prompt name max_retries initial_wait "[0 ..< nat max_retries]" w tr]
  by (simp add: invoke_model_with_retry_def)

lemma stage_1_entered:
  "stages_entered (trace_of (stage_1_company_details B T self w tr)) = stages_entered tr @ [1]"
  by (auto simp: stage_1_company_details_def stages_entered_append Let_def
        split: option.splits prod.splits sum.splits dest!: retry_stages_entered)

lemma stage_2_entered:
  "stages_entered (trace_of (stage_2_generate_questions B T self d w tr)) = stages_entered tr @ [2]"
  by (auto simp: stage_2_generate_questions_def stages_entered_append Let_def
        split: option.splits prod.splits sum.splits dest!: retry_stages_entered)

lemma stage_3_entered:
  "stages_entered (trace_of (stage_3_answer_questions B T self d q w tr)) = stages_entered tr @ [3]"
  by (auto simp: stage_3_answer_questions_def stages_entered_append Let_def
        split: option.splits prod.splits sum.splits dest!: retry_stages_entered)

lemma stage_4_entered:
  "stages_entered (trace_of (stage_4_score_results B T self q a w tr)) = stages_entered tr @ [4]"
  by (auto simp: stage_4_score_results_def stages_entered_append Let_def
        split: option.splits prod.splits sum.splits dest!: retry_stages_entered)

lemma stage_1_truthy:
  assumes "stage_1_company_details B T self w tr = (details, self1, w1, tr1)" and "truthy details"
  shows "self1 = self\<lparr>stage_results := (stage_results self)(''company_details'' \<mapsto> details)\<rparr>"
  using assms
  by (auto simp: stage_1_company_details_def Let_def split: option.splits prod.splits sum.splits)

text \<open>The stages a run enters, by the values the stage methods return.\<close>

lemma run_stages_entered:
  "stages_entered (trace_of (run_full_pipeline B T self w)) =
     (let r1 = stage_1_company_details B T self w [] in
      if \<not> truthy (value_of r1) then [1]
      else let r2 = stage_2_generate_questions B T (self_of r1) (value_of r1) (world_of r1) (trace_of r1) in
      if \<not> truthy (value_of r2) then [1, 2]
      else let r3 = stage_3_answer_questions B T (self_of r2) (value_of r1) (value_of r2) (world_of r2) (trace_of r2) in
      if \<not> truthy (value_of r3) then [1, 2, 3]
      else [1, 2, 3, 4])"
proof -
  obtain v1 s1 w1 t1 where r1: "stage_1_company_details B T self w [] = (v1, s1, w1, t1)"
    by (cases "stage_1_company_details B T self w []") auto
  obtain v2 s2 w2 t2 where r2: "stage_2_generate_questions B T s1 v1 w1 t1 = (v2, s2, w2, t2)"
    by (cases "stage_2_generate_questions B T s1 v1 w1 t1") auto
  obtain v3 s3 w3 t3 where r3: "stage_3_answer_questions B T s2 v1 v2 w2 t2 = (v3, s3, w3, t3)"
    by (cases "stage_3_answer_questions B T s2 v1 v2 w2 t2") auto
  obtain v4 s4 w4 t4 where r4: "stage_4_score_results B T s3 v2 v3 w3 t3 = (v4, s4, w4, t4)"
    by (cases "stage_4_score_results B T s3 v2 v3 w3 t3") auto
  have e1: "stages_entered t1 = [1]"
    using stage_1_entered [of B T self w "[]"] r1 by simp
  have e2: "stages_entered t2 = [1, 2]"
    using stage_2_entered [of B T s1 v1 w1 t1] r2 e1 by simp
  have e3: "stages_entered t3 = [1, 2, 3]"
    using stage_3_entered [of B T s2 v1 v2 w2 t2] r3 e2 by simp
  have e4: "stages_entered t4 = [1, 2, 3, 4]"
    using stage_4_entered [of B T s3 v2 v3 w3 t3] r4 e3 by simp
  show ?thesis
    by (simp add: run_full_pipeline_def r1 r2 r3 r4 e1 e2 e3 e4 Let_def)
qed

lemma stage_2_exhausted:
  assumes m2: "stage_2_model self = Some model"
    and ok: "truthy details"
    and fail: "\<forall>j<3. is_failed (outcome_at model (stage_2_prompt B T details) w j)"
  shows "stage_2_generate_questions B T self details w tr =
           (PNone, self, world_after model (stage_2_prompt B T details) w 3,
            tr @ [Banner 2] @ backoff_trace (stage_2_spec self) (stage_2_prompt B T details) 2 0 2
               @ [Invoke (stage_2_spec self) 2 (stage_2_prompt B T details)])"
proof -
  have all: "\<forall>j\<le>2. is_failed (outcome_at model (stage_2_prompt B T details) w j)"
    using fail by (simp add: less_Suc_eq_le [symmetric] numeral_3_eq_3)
  have "attempts model (stage_2_prompt B T details) (stage_2_spec self) 3 2 [0 ..< nat 3] w (tr @ [Banner 2]) =
          (Inr None, world_after model (stage_2_prompt B T details) w (Suc 2),
           (tr @ [Banner 2]) @ backoff_trace (stage_2_spec self) (stage_2_prompt B T details) 2 0 2
              @ [Invoke (stage_2_spec self) (0 + 2) (stage_2_prompt B T details)])"
  proof (rule attempts_all_failed)
    show "0 + Suc 2 = nat 3" by simp
    show "\<forall>j\<le>2. is_failed (outcome_at model (stage_2_prompt B T details) w j)" by (rule all)
    show "\<forall>j<2. time_sleep (2 * 2 ^ (0 + j)) = None"
      by (simp add: time_sleep_def sleep_limit_def sleep_safe_def numeral_2_eq_2 less_Suc_eq)
  qed
  then show ?thesis
    using m2 ok by (simp add: stage_2_generate_questions_def invoke_model_with_retry_def numeral_3_eq_3)
qed

text \<open>
  Claim C6. Take a run on a pipeline whose result mapping is empty, as \<open>__init__\<close>
  leaves it, in which stage 1 returns a truthy value and all three attempts of stage 2's
  invocation fail. The run returns \<open>False\<close>; after the banner of stage 2 the trace
  holds the three attempts and their two waits and nothing more, so stages 3 and 4 are
  never entered; and the result mapping holds the entry of stage 1 and no other.
\<close>

theorem stage_2_exhaustion_halts_run:
  assumes fresh: "stage_results self = Map.empty"
    and s1: "stage_1_company_details B T self w [] = (details, self1, w1, tr1)"
    and ok1: "truthy details"
    and m2: "stage_2_model self = Some model"
    and fail: "\<forall>j<3. is_failed (outcome_at model (stage_2_prompt B T details) w1 j)"
  shows "run_full_pipeline B T self w =
           (False, self1, world_after model (stage_2_prompt B T details) w1 3,
            tr1 @ [Banner 2] @ backoff_trace (stage_2_spec self) (stage_2_prompt B T details) 2 0 2
                @ [Invoke (stage_2_spec self) 2 (stage_2_prompt B T details)])
         \<and> stage_results self1 = [''company_details'' \<mapsto> details]
         \<and> stages_entered (trace_of (run_full_pipeline B T self w)) = [1, 2]"
proof -
  have self1: "self1 = self\<lparr>stage_results := (stage_results self)(''company_details'' \<mapsto> details)\<rparr>"
    using s1 ok1 by (rule stage_1_truthy)
  then have m2': "stage_2_model self1 = Some model" and spec: "stage_2_spec self1 = stage_2_spec self"
    using m2 by simp_all
  have s2: "stage_2_generate_questions B T self1 details w1 tr1 =
           (PNone, self1, world_after model (stage_2_prompt B T details) w1 3,
            tr1 @ [Banner 2] @ backoff_trace (stage_2_spec self) (stage_2_prompt B T details) 2 0 2
               @ [Invoke (stage_2_spec self) 2 (stage_2_prompt B T details)])"
    using stage_2_exhausted [OF m2' ok1 fail, of tr1] spec by simp
  have run: "run_full_pipeline B T self w =
           (False, self1, world_after model (stage_2_prompt B T details) w1 3,
            tr1 @ [Banner 2] @ backoff_trace (stage_2_spec self) (stage_2_prompt B T details) 2 0 2
                @ [Invoke (stage_2_spec self) 2 (stage_2_prompt B T details)])"
    using s1 ok1 s2 by (simp add: run_full_pipeline_def)
  have res: "stage_results self1 = [''company_details'' \<mapsto> details]"
    using self1 fresh by simp
  have ent: "stages_entered (trace_of (run_full_pipeline B T self w)) = [1, 2]"
    using s1 ok1 s2 by (simp add: run_stages_entered)
  show ?thesis using run res ent by simp
qed

theorem stage_2_exhaustion_halts_run_witness:
  "run_full_pipeline small_builtins demo_text
     (demo_pipeline (says (PStr ''Anvils.'')) unreachable unreachable unreachable) 0 =
     (False,
      (demo_pipeline (says (PStr ''Anvils.'')) unreachable unreachable unreachable)
         \<lparr>stage_results := [''company_details'' \<mapsto> PStr ''Anvils.'']\<rparr>,
      4,
      [Banner 1, Invoke ''gemini'' 0 ''Describe Open AI.'',
       Banner 2, Invoke ''groq:llama-3.3-70b-versatile'' 0 ''Profile: Anvils. Ask.'', Sleep 2,
       Invoke ''groq:llama-3.3-70b-versatile'' 1 ''Profile: Anvils. Ask.'', Sleep 4,
       Invoke ''groq:llama-3.3-70b-versatile'' 2 ''Profile: Anvils. Ask.''])
   \<and> stages_entered (trace_of (run_full_pipeline small_builtins demo_text
        (demo_pipeline (says (PStr ''Anvils.'')) unreachable unreachable unreachable) 0)) = [1, 2]"
proof -
  let ?P = "demo_pipeline (says (PStr ''Anvils.'')) unreachable unreachable unreachable"
  have fresh: "stage_results ?P = Map.empty" by (simp add: demo_pipeline_def)
  have s1: "stage_1_company_details small_builtins demo_text ?P 0 [] =
              (PStr ''Anvils.'', ?P\<lparr>stage_results := [''company_details'' \<mapsto> PStr ''Anvils.'']\<rparr>, 1,
               [Banner 1, Invoke ''gemini'' 0 ''Describe Open AI.''])"
    by (simp add: run_defs upt_conv_Cons)
  have ok1: "truthy (PStr ''Anvils.'')" by simp
  have m2: "stage_2_model ?P = Some unreachable" by (simp add: demo_pipeline_def)
  have fail: "\<forall>j<3. is_failed (outcome_at unreachable (stage_2_prompt small_builtins demo_text (PStr ''Anvils.'')) 1 j)"
    by (simp add: outcome_at_def unreachable_def numeral_3_eq_3 less_Suc_eq)
  show ?thesis
    using stage_2_exhaustion_halts_run [OF fresh s1 ok1 m2 fail]
    by (simp add: numeral_2_eq_2 numeral_3_eq_3 unreachable_def stage_2_prompt_def py_str_def
          demo_text_def demo_pipeline_def)
qed

text \<open>
  Claim C7. The claim is that the prompt sent to the model of stage 4 incorporates the
  stored questions as well as the stored answers. In the code the questions are
  formatted into \<open>questions_text\<close>, which the prompt never uses: the prompt is the
  fixed text around \<open>answers_text\<close>, and nothing that stage 4 does depends on the
  questions it is given.
\<close>

theorem stage_4_prompt_omits_questions:
  "stage_4_prompt B T questions answers = p4_head T @ format_for_prompt B answers @ p4_tail T
   \<and> stage_4_score_results B T self questions answers w tr =
       stage_4_score_results B T self questions' answers w tr"
  unfolding stage_4_score_results_def stage_4_prompt_def Let_def by simp

text \<open>
  What a stage method returns and stores once its invocation has succeeded and the
  extractor and the parser have returned.
\<close>

lemma stage_1_result:
  assumes "stage_1_model self = Some model"
    and "invoke_model_with_retry model (stage_1_prompt T (company_name self)) (stage_1_spec self) 3 2 w
           (tr @ [Banner 1]) = (Inr (Some content), w', tr')"
    and "extract_text_content B content = Inr details"
  shows "stage_1_company_details B T self w tr =
           (case summary_1 details of Inl e \<Rightarrow> PNone | Inr u \<Rightarrow> details,
            self\<lparr>stage_results := (stage_results self)(''company_details'' \<mapsto> details)\<rparr>, w', tr')"
  using assms by (simp add: stage_1_company_details_def split: sum.splits)

lemma stage_2_result:
  assumes "stage_2_model self = Some model"
    and "truthy company_details"
    and "invoke_model_with_retry model (stage_2_prompt B T company_details) (stage_2_spec self) 3 2 w
           (tr @ [Banner 2]) = (Inr (Some content), w', tr')"
    and "extract_text_content B content = Inr extracted"
    and "try_parse_json B extracted = Inr v"
  shows "stage_2_generate_questions B T self company_details w tr =
           (v, self\<lparr>stage_results := (stage_results self)(''questions'' \<mapsto> v)\<rparr>, w', tr')"
  using assms by (simp add: stage_2_generate_questions_def)

lemma stage_3_result:
  assumes "stage_3_model self = Some model"
    and "truthy questions" and "truthy company_details"
    and "invoke_model_with_retry model (stage_3_prompt B T company_details questions) (stage_3_spec self) 3 3 w
           (tr @ [Banner 3]) = (Inr (Some content), w', tr')"
    and "extract_text_content B content = Inr extracted"
    and "try_parse_json B extracted = Inr v"
  shows "stage_3_answer_questions B T self company_details questions w tr =
           (case summary_3 v of Inl e \<Rightarrow> PNone | Inr u \<Rightarrow> v,
            self\<lparr>stage_results := (stage_results self)(''answers'' \<mapsto> v)\<rparr>, w', tr')"
  using assms by (simp add: stage_3_answer_questions_def split: sum.splits)

lemma stage_4_result:
  assumes "stage_4_model self = Some model"
    and "truthy answers"
    and "invoke_model_with_retry model (stage_4_prompt B T questions answers) (stage_4_spec self) 3 2 w
           (tr @ [Banner 4]) = (Inr (Some content), w', tr')"
    and "extract_text_content B content = Inr extracted"
    and "try_parse_json B extracted = Inr v"
  shows "stage_4_score_results B T self questions answers w tr =
           (case summary_4 v of Inl e \<Rightarrow> PNone | Inr u \<Rightarrow> v,
            self\<lparr>stage_results := (stage_results self)(''scores'' \<mapsto> v)\<rparr>, w', tr')"
  using assms by (simp add: stage_4_score_results_def split: sum.splits)

lemma summary_text: "summary_1 (PStr t) = Inr ()" "summary_3 (PStr t) = Inr ()" "summary_4 (PStr t) = Inr ()"
  by (simp_all add: summary_1_def summary_3_def summary_4_def)

text \<open>The value a run returns, by the values the stage methods return.\<close>

lemma run_value:
  "value_of (run_full_pipeline B T self w) =
     (let r1 = stage_1_company_details B T self w [] in
      truthy (value_of r1) \<and>
      (let r2 = stage_2_generate_questions B T (self_of r1) (value_of r1) (world_of r1) (trace_of r1) in
       truthy (value_of r2) \<and>
       (let r3 = stage_3_answer_questions B T (self_of r2) (value_of r1) (value_of r2) (world_of r2) (trace_of r2) in
        truthy (value_of r3) \<and>
        truthy (value_of (stage_4_score_results B T (self_of r3) (value_of r2) (value_of r3)
                            (world_of r3) (trace_of r3))))))"
  by (simp add: run_full_pipeline_def Let_def split: prod.splits)

text \<open>Concrete evaluations: a model that answers at once, and the small decoder.\<close>

lemma retry_says:
  "invoke_model_with_retry (says c) prompt name 3 iw w tr =
     (Inr (Some c), Suc w, tr @ [Invoke name 0 prompt])"
  by (simp add: invoke_model_with_retry_def says_def upt_conv_Cons)

lemma parse_fenced: "try_parse_json small_builtins (PStr ''```json {} ```'') = Inr (PDict [])"
  by (simp add: try_parse_json_def strategy_defs string_ops small_defs)

lemma parse_brackets: "try_parse_json small_builtins (PStr ''[]'') = Inr (PList [])"
  by (simp add: try_parse_json_def strategy_defs small_defs)

lemma parse_null: "try_parse_json small_builtins (PStr ''null'') = Inr PNone"
  by (simp add: try_parse_json_def strategy_defs small_defs)

lemma parse_braces: "try_parse_json small_builtins (PStr ''{}'') = Inr (PDict [])"
  by (simp add: try_parse_json_def strategy_defs small_defs)

lemma parse_who: "try_parse_json small_builtins (PStr ''Who?'') = Inr (PStr ''Who?'')"
  by (simp add: try_parse_json_def strategy_defs string_ops small_defs upt_conv_Cons)

lemma parse_us: "try_parse_json small_builtins (PStr ''Us.'') = Inr (PStr ''Us.'')"
  by (simp add: try_parse_json_def strategy_defs string_ops small_defs upt_conv_Cons)

lemma parse_fine: "try_parse_json small_builtins (PStr ''Fine.'') = Inr (PStr ''Fine.'')"
  by (simp add: try_parse_json_def strategy_defs string_ops small_defs upt_conv_Cons)

lemma parse_empty: "try_parse_json small_builtins (PStr []) = Inr (PStr [])"
  by (simp add: try_parse_json_def strategy_defs string_ops small_defs)

text \<open>\<open>__init__\<close> leaves the result mapping empty and every stage model present.\<close>

lemma init_state:
  assumes "init STAGE_MODELS get_models get_model_by_spec name = Inr self"
  shows "stage_results self = Map.empty
         \<and> stage_1_model self \<noteq> None \<and> stage_2_model self \<noteq> None
         \<and> stage_3_model self \<noteq> None \<and> stage_4_model self \<noteq> None"
  using assms by (auto simp: init_def Let_def split: sum.splits option.splits)

text \<open>
  Claim C4. The claim is that all four stages store the output of the Text Extractor
  followed by the recovery parser. As amended: once the invocation of a stage has
  succeeded and the extractor has returned, stages 2, 3 and 4 store under their key the
  value the recovery parser returns on the extracted text, while stage 1 stores the
  extracted text itself and does not run the parser.
\<close>

theorem stages_store_recovered_value:
  "(stage_1_model self = Some model
      \<and> invoke_model_with_retry model (stage_1_prompt T (company_name self)) (stage_1_spec self) 3 2 w
           (tr @ [Banner 1]) = (Inr (Some content), w', tr')
      \<and> extract_text_content B content = Inr extracted
    \<longrightarrow> stage_results (self_of (stage_1_company_details B T self w tr)) =
          (stage_results self)(''company_details'' \<mapsto> extracted))
   \<and> (stage_2_model self = Some model \<and> truthy company_details
      \<and> invoke_model_with_retry model (stage_2_prompt B T company_details) (stage_2_spec self) 3 2 w
           (tr @ [Banner 2]) = (Inr (Some content), w', tr')
      \<and> extract_text_content B content = Inr extracted \<and> try_parse_json B extracted = Inr v
    \<longrightarrow> stage_results (self_of (stage_2_generate_questions B T self company_details w tr)) =
          (stage_results self)(''questions'' \<mapsto> v))
   \<and> (stage_3_model self = Some model \<and> truthy questions \<and> truthy company_details
      \<and> invoke_model_with_retry model (stage_3_prompt B T company_details questions) (stage_3_spec self) 3 3 w
           (tr @ [Banner 3]) = (Inr (Some content), w', tr')
      \<and> extract_text_content B content = Inr extracted \<and> try_parse_json B extracted = Inr v
    \<longrightarrow> stage_results (self_of (stage_3_answer_questions B T self company_details questions w tr)) =
          (stage_results self)(''answers'' \<mapsto> v))
   \<and> (stage_4_model self = Some model \<and> truthy answers
      \<and> invoke_model_with_retry model (stage_4_prompt B T questions answers) (stage_4_spec self) 3 2 w
           (tr @ [Banner 4]) = (Inr (Some content), w', tr')
      \<and> extract_text_content B content = Inr extracted \<and> try_parse_json B extracted = Inr v
    \<longrightarrow> stage_results (self_of (stage_4_score_results B T self questions answers w tr)) =
          (stage_results self)(''scores'' \<mapsto> v))"
proof (intro conjI impI)
  assume "stage_1_model self = Some model
      \<and> invoke_model_with_retry model (stage_1_prompt T (company_name self)) (stage_1_spec self) 3 2 w
           (tr @ [Banner 1]) = (Inr (Some content), w', tr')
      \<and> extract_text_content B content = Inr extracted"
  then show "stage_results (self_of (stage_1_company_details B T self w tr)) =
          (stage_results self)(''company_details'' \<mapsto> extracted)"
    by (simp add: stage_1_result)
next
  assume "stage_2_model self = Some model \<and> truthy company_details
      \<and> invoke_model_with_retry model (stage_2_prompt B T company_details) (stage_2_spec self) 3 2 w
           (tr @ [Banner 2]) = (Inr (Some content), w', tr')
      \<and> extract_text_content B content = Inr extracted \<and> try_parse_json B extracted = Inr v"
  then show "stage_results (self_of (stage_2_generate_questions B T self company_details w tr)) =
          (stage_results self)(''questions'' \<mapsto> v)"
    by (simp add: stage_2_result)
next
  assume "stage_3_model self = Some model \<and> truthy questions \<and> truthy company_details
      \<and> invoke_model_with_retry model (stage_3_prompt B T company_details questions) (stage_3_spec self) 3 3 w
           (tr @ [Banner 3]) = (Inr (Some content), w', tr')
      \<and> extract_text_content B content = Inr extracted \<and> try_parse_json B extracted = Inr v"
  then show "stage_results (self_of (stage_3_answer_questions B T self company_details questions w tr)) =
          (stage_results self)(''answers'' \<mapsto> v)"
    by (simp add: stage_3_result)
next
  assume "stage_4_model self = Some model \<and> truthy answers
      \<and> invoke_model_with_retry model (stage_4_prompt B T questions answers) (stage_4_spec self) 3 2 w
           (tr @ [Banner 4]) = (Inr (Some content), w', tr')
      \<and> extract_text_content B content = Inr extracted \<and> try_parse_json B extracted = Inr v"
  then show "stage_results (self_of (stage_4_score_results B T self questions answers w tr)) =
          (stage_results self)(''scores'' \<mapsto> v)"
    by (simp add: stage_4_result)
qed

theorem stages_store_recovered_value_witness:
  "stage_results (self_of (stage_1_company_details small_builtins demo_text
      (demo_pipeline (says (PStr ''Anvils.'')) unreachable unreachable unreachable) 0 [])) =
     [''company_details'' \<mapsto> PStr ''Anvils.'']
   \<and> stage_results (self_of (stage_2_generate_questions small_builtins demo_text
      (demo_pipeline unreachable (says (PStr ''```json {} ```'')) unreachable unreachable)
      (PStr ''Anvils.'') 0 [])) =
     [''questions'' \<mapsto> PDict []]
   \<and> stage_results (self_of (stage_3_answer_questions small_builtins demo_text
      (demo_pipeline unreachable unreachable (says (PList [PStr ''[]''])) unreachable)
      (PStr ''Anvils.'') (PStr ''Who?'') 0 [])) =
     [''answers'' \<mapsto> PList []]
   \<and> stage_results (self_of (stage_4_score_results small_builtins demo_text
      (demo_pipeline unreachable unreachable unreachable (says (PDict [(''text'', PStr ''null'')])))
      (PStr ''Who?'') (PStr ''Us.'') 0 [])) =
     [''scores'' \<mapsto> PNone]"
proof -
  let ?P1 = "demo_pipeline (says (PStr ''Anvils.'')) unreachable unreachable unreachable"
  let ?P2 = "demo_pipeline unreachable (says (PStr ''```json {} ```'')) unreachable unreachable"
  let ?P3 = "demo_pipeline unreachable unreachable (says (PList [PStr ''[]''])) unreachable"
  let ?P4 = "demo_pipeline unreachable unreachable unreachable (says (PDict [(''text'', PStr ''null'')]))"
  have a: "stage_results (self_of (stage_1_company_details small_builtins demo_text ?P1 0 [])) =
             (stage_results ?P1)(''company_details'' \<mapsto> PStr ''Anvils.'')"
    using stages_store_recovered_value
      [of ?P1 "says (PStr ''Anvils.'')" demo_text 0 "[]" "PStr ''Anvils.''" 1
          "[Banner 1, Invoke ''gemini'' 0 (stage_1_prompt demo_text ''Open AI'')]"
          small_builtins "PStr ''Anvils.''"]
    by (simp add: retry_says demo_pipeline_def)
  have b: "stage_results (self_of (stage_2_generate_questions small_builtins demo_text ?P2 (PStr ''Anvils.'') 0 [])) =
             (stage_results ?P2)(''questions'' \<mapsto> PDict [])"
    using stages_store_recovered_value
      [of ?P2 "says (PStr ''```json {} ```'')" demo_text 0 "[]" "PStr ''```json {} ```''" 1
          "[Banner 2, Invoke ''groq:llama-3.3-70b-versatile'' 0
              (stage_2_prompt small_builtins demo_text (PStr ''Anvils.''))]"
          small_builtins "PStr ''```json {} ```''" "PStr ''Anvils.''" "PDict []"]
    by (simp add: retry_says demo_pipeline_def parse_fenced)
  have c: "stage_results (self_of (stage_3_answer_questions small_builtins demo_text ?P3
              (PStr ''Anvils.'') (PStr ''Who?'') 0 [])) =
             (stage_results ?P3)(''answers'' \<mapsto> PList [])"
    using stages_store_recovered_value
      [of ?P3 "says (PList [PStr ''[]''])" demo_text 0 "[]" "PList [PStr ''[]'']" 1
          "[Banner 3, Invoke ''groq:openai/gpt-oss-120b'' 0
              (stage_3_prompt small_builtins demo_text (PStr ''Anvils.'') (PStr ''Who?''))]"
          small_builtins "PStr ''[]''" "PStr ''Anvils.''" "PList []" "PStr ''Who?''"]
    by (simp add: retry_says demo_pipeline_def parse_brackets py_join_def)
  have d: "stage_results (self_of (stage_4_score_results small_builtins demo_text ?P4
              (PStr ''Who?'') (PStr ''Us.'') 0 [])) =
             (stage_results ?P4)(''scores'' \<mapsto> PNone)"
    using stages_store_recovered_value
      [of ?P4 "says (PDict [(''text'', PStr ''null'')])" demo_text 0 "[]" "PDict [(''text'', PStr ''null'')]" 1
          "[Banner 4, Invoke ''cohere'' 0
              (stage_4_prompt small_builtins demo_text (PStr ''Who?'') (PStr ''Us.''))]"
          small_builtins "PStr ''null''" "PStr ''Anvils.''" "PNone" "PStr ''Who?''" "PStr ''Us.''"]
    by (simp add: retry_says demo_pipeline_def parse_null)
  show ?thesis
    unfolding a b c d by (simp add: demo_pipeline_def)
qed

text \<open>
  Claim C4 fails for stage 1: when its model answers \<open>{}\<close>, the extractor followed by
  the parser gives the empty dictionary, and stage 1 stores the string \<open>{}\<close>.
\<close>

theorem stage_1_stores_unparsed_text_counterexample:
  "extract_text_content small_builtins (PStr ''{}'') = Inr (PStr ''{}'')
   \<and> try_parse_json small_builtins (PStr ''{}'') = Inr (PDict [])
   \<and> stage_results (self_of (stage_1_company_details small_builtins demo_text
        (demo_pipeline (says (PStr ''{}'')) unreachable unreachable unreachable) 0 []))
        ''company_details'' = Some (PStr ''{}'')
   \<and> stage_results (self_of (stage_1_company_details small_builtins demo_text
        (demo_pipeline (says (PStr ''{}'')) unreachable unreachable unreachable) 0 []))
        ''company_details'' \<noteq> Some (PDict [])"
  by (simp add: parse_braces stage_1_company_details_def retry_says demo_pipeline_def summary_1_def)

text \<open>
  Claim C5. The claim is that a stage whose invocation succeeded counts as succeeded
  whenever the parser degrades to passthrough text, also when that text is empty. As
  amended: when the invocation of a stage succeeds and its result is passthrough text
  that is not empty (for stage 1, extracted text that is not empty), the run goes on:
  after stages 1, 2 and 3 the next stage is entered, and after stage 4 the run returns
  \<open>True\<close>.
\<close>

theorem unstructured_nonempty_text_continues:
  "(stage_1_model self = Some model1
      \<and> invoke_model_with_retry model1 (stage_1_prompt T (company_name self)) (stage_1_spec self) 3 2 w
           [Banner 1] = (Inr (Some content1), wa, tra)
      \<and> extract_text_content B content1 = Inr (PStr text1) \<and> text1 \<noteq> []
    \<longrightarrow> take 2 (stages_entered (trace_of (run_full_pipeline B T self w))) = [1, 2])
   \<and> (stage_1_company_details B T self w [] = (details, self1, w1, tr1) \<and> truthy details
      \<and> stage_2_model self1 = Some model2
      \<and> invoke_model_with_retry model2 (stage_2_prompt B T details) (stage_2_spec self1) 3 2 w1
           (tr1 @ [Banner 2]) = (Inr (Some content2), wb, trb)
      \<and> extract_text_content B content2 = Inr (PStr text2)
      \<and> try_parse_json B (PStr text2) = Inr (PStr text2) \<and> text2 \<noteq> []
    \<longrightarrow> take 3 (stages_entered (trace_of (run_full_pipeline B T self w))) = [1, 2, 3])
   \<and> (stage_1_company_details B T self w [] = (details, self1, w1, tr1) \<and> truthy details
      \<and> stage_2_generate_questions B T self1 details w1 tr1 = (questions, self2, w2, tr2)
      \<and> truthy questions
      \<and> stage_3_model self2 = Some model3
      \<and> invoke_model_with_retry model3 (stage_3_prompt B T details questions) (stage_3_spec self2) 3 3 w2
           (tr2 @ [Banner 3]) = (Inr (Some content3), wc, trc)
      \<and> extract_text_content B content3 = Inr (PStr text3)
      \<and> try_parse_json B (PStr text3) = Inr (PStr text3) \<and> text3 \<noteq> []
    \<longrightarrow> stages_entered (trace_of (run_full_pipeline B T self w)) = [1, 2, 3, 4])
   \<and> (stage_1_company_details B T self w [] = (details, self1, w1, tr1) \<and> truthy details
      \<and> stage_2_generate_questions B T self1 details w1 tr1 = (questions, self2, w2, tr2)
      \<and> truthy questions
      \<and> stage_3_answer_questions B T self2 details questions w2 tr2 = (answers, self3, w3, tr3)
      \<and> truthy answers
      \<and> stage_4_model self3 = Some model4
      \<and> invoke_model_with_retry model4 (stage_4_prompt B T questions answers) (stage_4_spec self3) 3 2 w3
           (tr3 @ [Banner 4]) = (Inr (Some content4), wd, trd)
      \<and> extract_text_content B content4 = Inr (PStr text4)
      \<and> try_parse_json B (PStr text4) = Inr (PStr text4) \<and> text4 \<noteq> []
    \<longrightarrow> value_of (run_full_pipeline B T self w) = True)"
proof (intro conjI impI)
  assume h: "stage_1_model self = Some model1
      \<and> invoke_model_with_retry model1 (stage_1_prompt T (company_name self)) (stage_1_spec self) 3 2 w
           [Banner 1] = (Inr (Some content1), wa, tra)
      \<and> extract_text_content B content1 = Inr (PStr text1) \<and> text1 \<noteq> []"
  have "stage_1_company_details B T self w [] =
          (case summary_1 (PStr text1) of Inl e \<Rightarrow> PNone | Inr u \<Rightarrow> PStr text1,
           self\<lparr>stage_results := (stage_results self)(''company_details'' \<mapsto> PStr text1)\<rparr>, wa, tra)"
    by (rule stage_1_result [where model = model1 and content = content1]) (use h in simp_all)
  then show "take 2 (stages_entered (trace_of (run_full_pipeline B T self w))) = [1, 2]"
    using h by (simp add: run_stages_entered summary_text Let_def)
next
  assume h: "stage_1_company_details B T self w [] = (details, self1, w1, tr1) \<and> truthy details
      \<and> stage_2_model self1 = Some model2
      \<and> invoke_model_with_retry model2 (stage_2_prompt B T details) (stage_2_spec self1) 3 2 w1
           (tr1 @ [Banner 2]) = (Inr (Some content2), wb, trb)
      \<and> extract_text_content B content2 = Inr (PStr text2)
      \<and> try_parse_json B (PStr text2) = Inr (PStr text2) \<and> text2 \<noteq> []"
  have "stage_2_generate_questions B T self1 details w1 tr1 =
          (PStr text2, self1\<lparr>stage_results := (stage_results self1)(''questions'' \<mapsto> PStr text2)\<rparr>, wb, trb)"
    by (rule stage_2_result [where model = model2 and content = content2 and extracted = "PStr text2"])
       (use h in simp_all)
  then show "take 3 (stages_entered (trace_of (run_full_pipeline B T self w))) = [1, 2, 3]"
    using h by (simp add: run_stages_entered Let_def)
next
  assume h: "stage_1_company_details B T self w [] = (details, self1, w1, tr1) \<and> truthy details
      \<and> stage_2_generate_questions B T self1 details w1 tr1 = (questions, self2, w2, tr2)
      \<and> truthy questions
      \<and> stage_3_model self2 = Some model3
      \<and> invoke_model_with_retry model3 (stage_3_prompt B T details questions) (stage_3_spec self2) 3 3 w2
           (tr2 @ [Banner 3]) = (Inr (Some content3), wc, trc)
      \<and> extract_text_content B content3 = Inr (PStr text3)
      \<and> try_parse_json B (PStr text3) = Inr (PStr text3) \<and> text3 \<noteq> []"
  have "stage_3_answer_questions B T self2 details questions w2 tr2 =
          (case summary_3 (PStr text3) of Inl e \<Rightarrow> PNone | Inr u \<Rightarrow> PStr text3,
           self2\<lparr>stage_results := (stage_results self2)(''answers'' \<mapsto> PStr text3)\<rparr>, wc, trc)"
    by (rule stage_3_result [where model = model3 and content = content3 and extracted = "PStr text3"])
       (use h in simp_all)
  then show "stages_entered (trace_of (run_full_pipeline B T self w)) = [1, 2, 3, 4]"
    using h by (simp add: run_stages_entered summary_text Let_def)
next
  assume h: "stage_1_company_details B T self w [] = (details, self1, w1, tr1) \<and> truthy details
      \<and> stage_2_generate_questions B T self1 details w1 tr1 = (questions, self2, w2, tr2)
      \<and> truthy questions
      \<and> stage_3_answer_questions B T self2 details questions w2 tr2 = (answers, self3, w3, tr3)
      \<and> truthy answers
      \<and> stage_4_model self3 = Some model4
      \<and> invoke_model_with_retry model4 (stage_4_prompt B T questions answers) (stage_4_spec self3) 3 2 w3
           (tr3 @ [Banner 4]) = (Inr (Some content4), wd, trd)
      \<and> extract_text_content B content4 = Inr (PStr text4)
      \<and> try_parse_json B (PStr text4) = Inr (PStr text4) \<and> text4 \<noteq> []"
  have "stage_4_score_results B T self3 questions answers w3 tr3 =
          (case summary_4 (PStr text4) of Inl e \<Rightarrow> PNone | Inr u \<Rightarrow> PStr text4,
           self3\<lparr>stage_results := (stage_results self3)(''scores'' \<mapsto> PStr text4)\<rparr>, wd, trd)"
    by (rule stage_4_result [where model = model4 and content = content4 and extracted = "PStr text4"])
       (use h in simp_all)
  then show "value_of (run_full_pipeline B T self w) = True"
    using h by (simp add: run_value summary_text Let_def)
qed

theorem unstructured_nonempty_text_continues_witness:
  "value_of (run_full_pipeline small_builtins demo_text
      (demo_pipeline (says (PStr ''Anvils.'')) (says (PStr ''Who?'')) (says (PStr ''Us.''))
         (says (PStr ''Fine.''))) 0) = True
   \<and> stages_entered (trace_of (run_full_pipeline small_builtins demo_text
      (demo_pipeline (says (PStr ''Anvils.'')) (says (PStr ''Who?'')) (says (PStr ''Us.''))
         (says (PStr ''Fine.''))) 0)) = [1, 2, 3, 4]"
proof -
  let ?P = "demo_pipeline (says (PStr ''Anvils.'')) (says (PStr ''Who?'')) (says (PStr ''Us.''))
              (says (PStr ''Fine.''))"
  let ?P1 = "?P\<lparr>stage_results := [''company_details'' \<mapsto> PStr ''Anvils.'']\<rparr>"
  let ?P2 = "?P\<lparr>stage_results := [''company_details'' \<mapsto> PStr ''Anvils.'', ''questions'' \<mapsto> PStr ''Who?'']\<rparr>"
  let ?P3 = "?P\<lparr>stage_results := [''company_details'' \<mapsto> PStr ''Anvils.'', ''questions'' \<mapsto> PStr ''Who?'',
                                   ''answers'' \<mapsto> PStr ''Us.'']\<rparr>"
  let ?t1 = "[Banner 1, Invoke ''gemini'' 0 ''Describe Open AI.'']"
  let ?t2 = "?t1 @ [Banner 2, Invoke ''groq:llama-3.3-70b-versatile'' 0 ''Profile: Anvils. Ask.'']"
  let ?t3 = "?t2 @ [Banner 3, Invoke ''groq:openai/gpt-oss-120b'' 0 ''Profile: Anvils. Questions: Who? Answer.'']"
  let ?t4 = "?t3 @ [Banner 4, Invoke ''cohere'' 0 ''Input: Us. Score.'']"
  have s1: "stage_1_company_details small_builtins demo_text ?P 0 [] = (PStr ''Anvils.'', ?P1, 1, ?t1)"
    by (simp add: stage_1_company_details_def retry_says summary_text demo_pipeline_def
          stage_1_prompt_def demo_text_def)
  have s2: "stage_2_generate_questions small_builtins demo_text ?P1 (PStr ''Anvils.'') 1 ?t1 =
              (PStr ''Who?'', ?P2, 2, ?t2)"
    by (simp add: stage_2_generate_questions_def retry_says parse_who demo_pipeline_def
          stage_2_prompt_def py_str_def demo_text_def)
  have s3: "stage_3_answer_questions small_builtins demo_text ?P2 (PStr ''Anvils.'') (PStr ''Who?'') 2 ?t2 =
              (PStr ''Us.'', ?P3, 3, ?t3)"
    by (simp add: stage_3_answer_questions_def retry_says parse_us summary_text demo_pipeline_def
          stage_3_prompt_def format_for_prompt_def py_str_def demo_text_def)
  have i4: "invoke_model_with_retry (says (PStr ''Fine.''))
              (stage_4_prompt small_builtins demo_text (PStr ''Who?'') (PStr ''Us.'')) (stage_4_spec ?P3) 3 2 3
              (?t3 @ [Banner 4]) = (Inr (Some (PStr ''Fine.'')), 4, ?t4)"
    by (simp add: retry_says demo_pipeline_def stage_4_prompt_def format_for_prompt_def py_str_def
          demo_text_def)
  have i3: "invoke_model_with_retry (says (PStr ''Us.''))
              (stage_3_prompt small_builtins demo_text (PStr ''Anvils.'') (PStr ''Who?'')) (stage_3_spec ?P2) 3 3 2
              (?t2 @ [Banner 3]) = (Inr (Some (PStr ''Us.'')), 3, ?t3)"
    by (simp add: retry_says demo_pipeline_def stage_3_prompt_def format_for_prompt_def py_str_def
          demo_text_def)
  have m3: "stage_3_model ?P2 = Some (says (PStr ''Us.''))" and m4: "stage_4_model ?P3 = Some (says (PStr ''Fine.''))"
    by (simp_all add: demo_pipeline_def)
  note inst = unstructured_nonempty_text_continues
    [where B = small_builtins and T = demo_text and self = ?P and w = 0
       and details = "PStr ''Anvils.''" and ?self1.0 = ?P1 and ?w1.0 = 1 and ?tr1.0 = ?t1
       and questions = "PStr ''Who?''" and ?self2.0 = ?P2 and ?w2.0 = 2 and ?tr2.0 = ?t2
       and answers = "PStr ''Us.''" and ?self3.0 = ?P3 and ?w3.0 = 3 and ?tr3.0 = ?t3
       and ?model3.0 = "says (PStr ''Us.'')" and ?content3.0 = "PStr ''Us.''" and ?text3.0 = "''Us.''"
       and wc = 3 and trc = ?t3
       and ?model4.0 = "says (PStr ''Fine.'')" and ?content4.0 = "PStr ''Fine.''" and ?text4.0 = "''Fine.''"
       and wd = 4 and trd = ?t4]
  have a: "value_of (run_full_pipeline small_builtins demo_text ?P 0) = True"
    using inst s1 s2 s3 i4 m4 parse_fine by simp
  have b: "stages_entered (trace_of (run_full_pipeline small_builtins demo_text ?P 0)) = [1, 2, 3, 4]"
    using inst s1 s2 i3 m3 parse_us by simp
  show ?thesis using a b by simp
qed

text \<open>
  Claim C5 fails on empty text: stage 2's model answers the empty string at its first
  attempt, the parser passes it through and it is stored, and the run returns
  \<open>False\<close> without entering stage 3, since \<open>not questions\<close> holds of the
  empty string.
\<close>

theorem empty_text_halts_run_counterexample:
  "run_full_pipeline small_builtins demo_text
      (demo_pipeline (says (PStr ''Anvils.'')) (says (PStr [])) (says (PStr ''Us.''))
         (says (PStr ''Fine.''))) 0 =
     (False,
      (demo_pipeline (says (PStr ''Anvils.'')) (says (PStr [])) (says (PStr ''Us.''))
         (says (PStr ''Fine.'')))
        \<lparr>stage_results := [''company_details'' \<mapsto> PStr ''Anvils.'', ''questions'' \<mapsto> PStr []]\<rparr>,
      2,
      [Banner 1, Invoke ''gemini'' 0 ''Describe Open AI.'',
       Banner 2, Invoke ''groq:llama-3.3-70b-versatile'' 0 ''Profile: Anvils. Ask.''])
   \<and> try_parse_json small_builtins (PStr []) = Inr (PStr [])"
  by (simp add: run_full_pipeline_def stage_1_company_details_def stage_2_generate_questions_def
        retry_says summary_text parse_empty demo_pipeline_def stage_1_prompt_def stage_2_prompt_def
        py_str_def demo_text_def)

end
